theory Spec2Isabelle
  imports Main
begin

section \<open>JavaScript values and strings\<close>

text \<open>
  The scripts read records parsed from JSON or CSV. A field value is a string, a number,
  a boolean, \<open>null\<close>, or absent (\<open>undefined\<close>). Numbers are the integers (codes and
  counts); strings are lists of characters, one per code unit of ASCII text.
\<close>

datatype jsval = JUndefined | JNull | JBool bool | JNum int | JStr string

text \<open>
  A record is an object: its keys, each once, with their values. A missing key reads
  \<open>undefined\<close>.
\<close>

type_synonym item = "(string \<times> jsval) list"

definition get :: "item \<Rightarrow> string \<Rightarrow> jsval" where
  "get it k = (case map_of it k of None \<Rightarrow> JUndefined | Some v \<Rightarrow> v)"

text \<open>Truthiness, as \<open>!x\<close>, \<open>x || y\<close> and \<open>if (x)\<close> test it.\<close>

fun truthy :: "jsval \<Rightarrow> bool" where
  "truthy JUndefined = False"
| "truthy JNull = False"
| "truthy (JBool b) = b"
| "truthy (JNum n) = (n \<noteq> 0)"
| "truthy (JStr s) = (s \<noteq> [])"

text \<open>\<open>a || b\<close>\<close>

definition jor :: "jsval \<Rightarrow> jsval \<Rightarrow> jsval" where
  "jor a b = (if truthy a then a else b)"

definition digit_char :: "nat \<Rightarrow> char" where
  "digit_char d = ''0123456789'' ! d"

text \<open>The decimal digits of a number that is not negative.\<close>

function show_digits :: "int \<Rightarrow> string" where
  "show_digits n =
     (if n < 10 then [digit_char (nat n)]
      else show_digits (n div 10) @ [digit_char (nat (n mod 10))])"
  by pat_completeness auto
termination
  by (relation "measure nat") auto

declare show_digits.simps [simp del]

definition show_int :: "int \<Rightarrow> string" where
  "show_int i = (if i < 0 then CHR ''-'' # show_digits (- i) else show_digits i)"

text \<open>\<open>String(x)\<close>\<close>

fun String :: "jsval \<Rightarrow> string" where
  "String JUndefined = ''undefined''"
| "String JNull = ''null''"
| "String (JBool b) = (if b then ''true'' else ''false'')"
| "String (JNum n) = show_int n"
| "String (JStr s) = s"

definition is_digit :: "char \<Rightarrow> bool" where
  "is_digit c = (c \<in> set ''0123456789'')"

text \<open>White space of \<open>trim\<close>: tab, line feed, vertical tab, form feed, carriage return, space.\<close>

definition is_space :: "char \<Rightarrow> bool" where
  "is_space c = (c \<in> set [CHR 0x09, CHR 0x0A, CHR 0x0B, CHR 0x0C, CHR 0x0D, CHR 0x20])"

definition trim :: "string \<Rightarrow> string" where
  "trim s = rev (dropWhile is_space (rev (dropWhile is_space s)))"

text \<open>\<open>s.padStart(n, '0')\<close>\<close>

definition padStart :: "nat \<Rightarrow> string \<Rightarrow> string" where
  "padStart n s = replicate (n - length s) CHR ''0'' @ s"

text \<open>\<open>s.replace(/\D/g, '')\<close>\<close>

definition strip_non_digits :: "string \<Rightarrow> string" where
  "strip_non_digits s = filter is_digit s"

definition lower_char :: "char \<Rightarrow> char" where
  "lower_char c =
     (case map_of (zip ''ABCDEFGHIJKLMNOPQRSTUVWXYZ'' ''abcdefghijklmnopqrstuvwxyz'') c of
        None \<Rightarrow> c | Some d \<Rightarrow> d)"

definition toLowerCase :: "string \<Rightarrow> string" where
  "toLowerCase s = map lower_char s"

fun startsWith :: "string \<Rightarrow> string \<Rightarrow> bool" where
  "startsWith s [] = True"
| "startsWith [] (p # ps) = False"
| "startsWith (c # cs) (p # ps) = (c = p \<and> startsWith cs ps)"

text \<open>\<open>s.includes(sub)\<close>\<close>

fun str_includes :: "string \<Rightarrow> string \<Rightarrow> bool" where
  "str_includes [] sub = (sub = [])"
| "str_includes (c # cs) sub = (startsWith (c # cs) sub \<or> str_includes cs sub)"

definition endsWith :: "string \<Rightarrow> string \<Rightarrow> bool" where
  "endsWith s suf = startsWith (rev s) (rev suf)"

section \<open>normalizeCode\<close>

text \<open>
  Every script has its own \<open>normalizeCode\<close>; \<open>null\<close> is \<open>None\<close>.

  cleanPSGCData.js:
  \<^verbatim>\<open>
  if (!code) return null;
  let codeStr = String(code).trim();
  codeStr = codeStr.replace(/\D/g, '');
  if (codeStr.length === 0) return null;
  return codeStr.padStart(9, '0').substring(0, 9);
  \<close>
\<close>

definition normalizeCode_clean :: "jsval \<Rightarrow> string option" where
  "normalizeCode_clean code =
     (if \<not> truthy code then None
      else let codeStr = strip_non_digits (trim (String code))
           in if length codeStr = 0 then None
              else Some (take 9 (padStart 9 codeStr)))"

text \<open>
  importPSGC.js and validatePSGC.js: the same without the removal of non-digits.
\<close>

definition normalizeCode_import :: "jsval \<Rightarrow> string option" where
  "normalizeCode_import code =
     (if \<not> truthy code then None
      else let codeStr = trim (String code)
           in if length codeStr = 0 then None
              else Some (take 9 (padStart 9 codeStr)))"

text \<open>fixMissingRecords.js and diagnoseDiscrepancies.js: no trimming either.\<close>

definition normalizeCode_fix :: "jsval \<Rightarrow> string option" where
  "normalizeCode_fix code =
     (if \<not> truthy code then None
      else Some (take 9 (padStart 9 (String code))))"

text \<open>
  downloadFromPSA.js:
  \<^verbatim>\<open>
  if (!code) return null;
  const codeStr = String(code);
  // Handle 10-digit codes (remove leading zero)
  if (codeStr.length === 10 && codeStr.startsWith('0')) {
    return codeStr.substring(1);
  }
  return codeStr.padStart(9, '0').substring(0, 9);
  \<close>
\<close>

definition normalizeCode_psa :: "jsval \<Rightarrow> string option" where
  "normalizeCode_psa code =
     (if \<not> truthy code then None
      else let codeStr = String code
           in if length codeStr = 10 \<and> startsWith codeStr ''0'' then Some (drop 1 codeStr)
              else Some (take 9 (padStart 9 codeStr)))"

text \<open>fetchFromPSGCCloud.js: the same without the guard; it always returns a string.\<close>

definition normalizeCode_cloud :: "jsval \<Rightarrow> string" where
  "normalizeCode_cloud code =
     (let codeStr = String code
      in if length codeStr = 10 \<and> startsWith codeStr ''0'' then drop 1 codeStr
         else take 9 (padStart 9 codeStr))"

section \<open>Code patterns\<close>

text \<open>
  The regular expressions of the classifiers: \<open>/^\d{n}0...0$/\<close> with \<open>z\<close> zeros is
  \<open>digits_then_zeros n z\<close>, so \<open>/^\d{2}0000000$/\<close> is \<open>digits_then_zeros 2 7\<close> and
  \<open>/^\d{9}$/\<close> is \<open>digits_then_zeros 9 0\<close>; \<open>/000$/\<close> is \<open>endsWith code ''000''\<close>.
\<close>

definition digits_then_zeros :: "nat \<Rightarrow> nat \<Rightarrow> string \<Rightarrow> bool" where
  "digits_then_zeros n z s =
     (length s = n + z \<and> list_all is_digit (take n s) \<and> drop n s = replicate z CHR ''0'')"

text \<open>\<open>a || b || c || ...\<close>\<close>

fun jors :: "jsval list \<Rightarrow> jsval" where
  "jors [] = JUndefined"
| "jors [a] = a"
| "jors (a # b # r) = (if truthy a then a else jors (b # r))"

datatype js_error = TypeError

text \<open>
  A string method (\<open>trim\<close>, \<open>toLowerCase\<close>) called on a value: a value that is not a
  string has no such method, and the call throws.
\<close>

definition as_string :: "jsval \<Rightarrow> js_error + string" where
  "as_string v = (case v of JStr s \<Rightarrow> Inr s | _ \<Rightarrow> Inl TypeError)"

section \<open>cleanPSGCData.js: classifyEntity\<close>

datatype level = Region | Province | District | City | Municipality | Barangay

text \<open>
  The object \<open>classifyEntity\<close> returns: \<open>{ type, code, name }\<close>, and \<open>cityClass\<close> for a city
  (\<open>undefined\<close> when read on the others).
\<close>

record entity =
  etype :: level
  ecode :: string
  ename :: jsval
  cityClass :: jsval

text \<open>
  \<^verbatim>\<open>
  const isCity = type.includes('city') || name.includes('city of') || name.endsWith(' city') ||
                 row.city_class || row.cityClass || row['City Class'] || row['city class'] ||
                 (name.includes('city') && (name.includes('highly urbanized') ||
                   name.includes('independent component') || name.includes('component city')));
  \<close>
  \<open>name\<close> and \<open>type\<close> are already trimmed and in lower case.
\<close>

definition isCity_clean :: "string \<Rightarrow> string \<Rightarrow> item \<Rightarrow> bool" where
  "isCity_clean name type row =
     (str_includes type ''city'' \<or> str_includes name ''city of'' \<or> endsWith name '' city'' \<or>
      truthy (get row ''city_class'') \<or> truthy (get row ''cityClass'') \<or>
      truthy (get row ''City Class'') \<or> truthy (get row ''city class'') \<or>
      (str_includes name ''city'' \<and>
         (str_includes name ''highly urbanized'' \<or> str_includes name ''independent component'' \<or>
          str_includes name ''component city'')))"

text \<open>
  \<open>classifyEntity(code, name = '', type = '', row = {})\<close>, called with strings for \<open>name\<close>
  and \<open>type\<close> (as \<open>cleanData\<close> does). \<open>None\<close> is \<open>null\<close>. The patterns are tried in the
  order of the source: region, province, district, city or municipality, barangay.
\<close>

definition classifyEntity :: "jsval \<Rightarrow> string \<Rightarrow> string \<Rightarrow> item \<Rightarrow> entity option" where
  "classifyEntity code0 name0 type0 row =
     (case normalizeCode_clean code0 of
        None \<Rightarrow> None
      | Some code \<Rightarrow>
          if code = ''000000000'' then None
          else
            let name = toLowerCase (trim name0);
                type = toLowerCase (trim type0);
                nm = jor (get row ''name'') (JStr name)
            in
              if digits_then_zeros 2 7 code then
                Some \<lparr>etype = Region, ecode = code, ename = nm, cityClass = JUndefined\<rparr>
              else if digits_then_zeros 4 5 code then
                Some \<lparr>etype = Province, ecode = code, ename = nm, cityClass = JUndefined\<rparr>
              else if digits_then_zeros 5 4 code then
                Some \<lparr>etype = District, ecode = code, ename = nm, cityClass = JUndefined\<rparr>
              else if digits_then_zeros 6 3 code then
                (if isCity_clean name type row then
                   Some \<lparr>etype = City, ecode = code, ename = nm,
                         cityClass = jors [get row ''city_class'', get row ''cityClass'',
                                           get row ''City Class'', JNull]\<rparr>
                 else
                   Some \<lparr>etype = Municipality, ecode = code, ename = nm, cityClass = JUndefined\<rparr>)
              else if digits_then_zeros 9 0 code \<and> \<not> endsWith code ''000'' then
                Some \<lparr>etype = Barangay, ecode = code, ename = nm, cityClass = JUndefined\<rparr>
              else None)"

section \<open>validatePSGC.js: the classification of validateDataFile\<close>

datatype category =
  Regions | Provinces | Districts | Cities | Municipalities | Barangays | Unknown

text \<open>
  The body of the \<open>forEach\<close> of \<open>validateDataFile\<close>, after \<open>code\<close> (a normalized code or
  \<open>null\<close>), \<open>name\<close> (trimmed) and \<open>type\<close> have been read from the item: the counter it
  increments, or \<open>None\<close> when the item is skipped.
\<close>

definition validateDataFile_classify :: "string option \<Rightarrow> string \<Rightarrow> jsval \<Rightarrow> category option" where
  "validateDataFile_classify code0 name type =
     (case code0 of
        None \<Rightarrow> None
      | Some code \<Rightarrow>
          if code = ''000000000'' then None
          else if digits_then_zeros 2 7 code then Some Regions
          else if digits_then_zeros 4 5 code then Some Provinces
          else if digits_then_zeros 5 4 code then Some Districts
          else if digits_then_zeros 6 3 code then
            (if type = JStr ''City'' \<or> str_includes (toLowerCase name) ''city of'' \<or>
                endsWith (toLowerCase name) '' city'' \<or> str_includes (toLowerCase name) ''city''
             then Some Cities else Some Municipalities)
          else if digits_then_zeros 9 0 code \<and> \<not> endsWith code ''000'' then Some Barangays
          else Some Unknown)"

section \<open>fixMissingRecords.js: classifyEntity\<close>

text \<open>
  \<^verbatim>\<open>
  const isExplicitMunicipality = name.includes('municipality of') ||
                                 (name.includes('municipality') && !name.includes('city'));
  const isCity = !isExplicitMunicipality && (
    type === 'city' || name.includes('city of') || name.endsWith(' city') ||
    name.includes('city') || item.city_class || item.cityClass ||
    item.city_classification || item.cityCode);
  return isCity ? 'city' : 'municipality';
  \<close>
  \<open>(item.name || '').toLowerCase()\<close> throws when the name is a number or \<open>true\<close>.
\<close>

definition isExplicitMunicipality :: "string \<Rightarrow> bool" where
  "isExplicitMunicipality name =
     (str_includes name ''municipality of'' \<or>
      (str_includes name ''municipality'' \<and> \<not> str_includes name ''city''))"

definition isCity_fix :: "string \<Rightarrow> string \<Rightarrow> item \<Rightarrow> bool" where
  "isCity_fix name type it =
     (\<not> isExplicitMunicipality name \<and>
      (type = ''city'' \<or> str_includes name ''city of'' \<or> endsWith name '' city'' \<or>
       str_includes name ''city'' \<or> truthy (get it ''city_class'') \<or>
       truthy (get it ''cityClass'') \<or> truthy (get it ''city_classification'') \<or>
       truthy (get it ''cityCode'')))"

definition classifyEntity_fix :: "item \<Rightarrow> js_error + level option" where
  "classifyEntity_fix it =
     (case normalizeCode_fix (get it ''code'') of
        None \<Rightarrow> Inr None
      | Some code \<Rightarrow>
          if digits_then_zeros 2 7 code then Inr (Some Region)
          else if digits_then_zeros 4 5 code then Inr (Some Province)
          else if digits_then_zeros 6 3 code then
            (case as_string (jor (get it ''name'') (JStr [])) of
               Inl e \<Rightarrow> Inl e
             | Inr name0 \<Rightarrow>
                 (case as_string (jor (get it ''type'') (JStr [])) of
                    Inl e \<Rightarrow> Inl e
                  | Inr type0 \<Rightarrow>
                      if isCity_fix (toLowerCase name0) (toLowerCase type0) it
                      then Inr (Some City) else Inr (Some Municipality)))
          else if digits_then_zeros 9 0 code \<and> \<not> endsWith code ''000'' then Inr (Some Barangay)
          else Inr None)"

section \<open>cleanPSGCData.js: cleanData\<close>

text \<open>
  The state of the \<open>forEach\<close> of \<open>cleanData\<close>: the lists of \<open>cleaned\<close>, the set \<open>seen\<close>, and
  the logs \<open>duplicates\<close> (index, code, name) and \<open>invalid\<close> (index, reason).
\<close>

datatype reason = Missing_code_or_name | Invalid_PSGC_pattern | Thrown js_error

record clean_state =
  cleaned_regions :: "item list"
  cleaned_provinces :: "item list"
  cleaned_districts :: "item list"
  cleaned_cities :: "item list"
  cleaned_municipalities :: "item list"
  cleaned_barangays :: "item list"
  seen :: "string set"
  duplicates :: "(nat \<times> string \<times> string) list"
  invalid :: "(nat \<times> reason) list"

definition clean_init :: clean_state where
  "clean_init = \<lparr>cleaned_regions = [], cleaned_provinces = [], cleaned_districts = [],
     cleaned_cities = [], cleaned_municipalities = [], cleaned_barangays = [],
     seen = {}, duplicates = [], invalid = []\<rparr>"

text \<open>A normalized code as a field value: the string, or \<open>null\<close>.\<close>

definition code_value :: "string option \<Rightarrow> jsval" where
  "code_value c = (case c of None \<Rightarrow> JNull | Some s \<Rightarrow> JStr s)"

text \<open>
  \<open>normalizeCode(item.region_code || item.regionCode || code.substring(0, 2) + '0000000')\<close>
  and the same for the province, with \<open>code.substring(0, 4) + '00000'\<close>.
\<close>

definition region_code_of :: "string \<Rightarrow> item \<Rightarrow> jsval" where
  "region_code_of code it =
     code_value (normalizeCode_clean
       (jors [get it ''region_code'', get it ''regionCode'', JStr (take 2 code @ ''0000000'')]))"

definition province_code_of :: "string \<Rightarrow> item \<Rightarrow> jsval" where
  "province_code_of code it =
     code_value (normalizeCode_clean
       (jors [get it ''province_code'', get it ''provinceCode'', JStr (take 4 code @ ''00000'')]))"

definition island_group_code_of :: "item \<Rightarrow> jsval" where
  "island_group_code_of it =
     code_value (normalizeCode_clean
       (jors [get it ''island_group_code'', get it ''islandGroupCode'', JNull]))"

text \<open>The keys \<open>'Income\nClassification'\<close> and \<open>'Urban / Rural\n(based on 2020 CPH)'\<close>.\<close>

definition income_key :: string where
  "income_key = ''Income'' @ CHR 0x0A # ''Classification''"

definition urban_key :: string where
  "urban_key = ''Urban / Rural'' @ CHR 0x0A # ''(based on 2020 CPH)''"

definition income_class_of :: "item \<Rightarrow> jsval" where
  "income_class_of it =
     jors [get it ''income_class'', get it ''incomeClass'', get it ''Income Classification'',
           get it income_key, JNull]"

definition is_capital_of :: "item \<Rightarrow> jsval" where
  "is_capital_of it =
     (if get it ''is_capital'' = JNum 1 \<or> get it ''isCapital'' = JNum 1 \<or>
         get it ''capital'' = JStr ''Yes'' \<or> get it ''Capital'' = JStr ''Yes''
      then JNum 1 else JNum 0)"

text \<open>
  \<open>cleanEntity\<close>: \<open>code\<close> and \<open>name\<close> of the entity, then the fields of its type, in the
  order the source assigns them. A district gets no further field.
\<close>

definition cleanEntity_of :: "entity \<Rightarrow> string \<Rightarrow> item \<Rightarrow> item" where
  "cleanEntity_of e code it =
     [(''code'', JStr (ecode e)), (''name'', ename e)] @
     (case etype e of
        Region \<Rightarrow>
          [(''island_group_code'', island_group_code_of it),
           (''island_group_name'',
              jors [get it ''island_group_name'', get it ''islandGroupName'', JNull])]
      | Province \<Rightarrow>
          [(''region_code'', region_code_of code it),
           (''island_group_code'', island_group_code_of it)]
      | District \<Rightarrow> []
      | City \<Rightarrow>
          [(''province_code'', province_code_of code it),
           (''region_code'', region_code_of code it),
           (''city_class'',
              jors [cityClass e, get it ''city_class'', get it ''cityClass'',
                    get it ''City Class'', JNull]),
           (''income_class'', income_class_of it),
           (''is_capital'', is_capital_of it)]
      | Municipality \<Rightarrow>
          [(''province_code'', province_code_of code it),
           (''region_code'', region_code_of code it),
           (''income_class'', income_class_of it),
           (''is_capital'', is_capital_of it)]
      | Barangay \<Rightarrow>
          [(''city_code'', JNull),
           (''municipality_code'', JNull),
           (''province_code'', province_code_of code it),
           (''region_code'', region_code_of code it),
           (''urban_rural'',
              jors [get it ''urban_rural'', get it ''urbanRural'', get it ''Urban / Rural'',
                    get it urban_key, JNull])])"

text \<open>
  The \<open>push\<close> of the branch of the entity's type. No branch handles \<open>'district'\<close>: such an
  entity is pushed nowhere.
\<close>

definition push_cleaned :: "clean_state \<Rightarrow> level \<Rightarrow> item \<Rightarrow> clean_state" where
  "push_cleaned st l ce =
     (case l of
        Region \<Rightarrow> st\<lparr>cleaned_regions := cleaned_regions st @ [ce]\<rparr>
      | Province \<Rightarrow> st\<lparr>cleaned_provinces := cleaned_provinces st @ [ce]\<rparr>
      | District \<Rightarrow> st
      | City \<Rightarrow> st\<lparr>cleaned_cities := cleaned_cities st @ [ce]\<rparr>
      | Municipality \<Rightarrow> st\<lparr>cleaned_municipalities := cleaned_municipalities st @ [ce]\<rparr>
      | Barangay \<Rightarrow> st\<lparr>cleaned_barangays := cleaned_barangays st @ [ce]\<rparr>)"

text \<open>The three values the callback reads first; \<open>trim\<close> throws on a truthy non-string.\<close>

definition item_code :: "item \<Rightarrow> string option" where
  "item_code it =
     normalizeCode_clean
       (jors [get it ''code'', get it ''Code'', get it ''10-digit PSGC'',
              get it ''Correspondence Code''])"

definition item_name :: "item \<Rightarrow> js_error + string" where
  "item_name it = map_sum id trim (as_string (jors [get it ''name'', get it ''Name'', JStr []]))"

definition item_type :: "item \<Rightarrow> js_error + string" where
  "item_type it =
     map_sum id trim
       (as_string (jors [get it ''type'', get it ''Type'', get it ''Geographic Level'', JStr []]))"

text \<open>
  One call of the callback of \<open>data.forEach((item, index) => { try { ... } catch ... })\<close>:
  an exception is caught and logged in \<open>invalid\<close>; a record without code or name is
  invalid; a record whose code is in \<open>seen\<close> is logged in \<open>duplicates\<close> and left out;
  otherwise the code is added to \<open>seen\<close> and the record is classified and pushed.
\<close>

definition cleanItem :: "clean_state \<Rightarrow> nat \<Rightarrow> item \<Rightarrow> clean_state" where
  "cleanItem st index it =
     (case item_name it of
        Inl err \<Rightarrow> st\<lparr>invalid := invalid st @ [(index, Thrown err)]\<rparr>
      | Inr name \<Rightarrow>
     (case item_type it of
        Inl err \<Rightarrow> st\<lparr>invalid := invalid st @ [(index, Thrown err)]\<rparr>
      | Inr type \<Rightarrow>
     (case item_code it of
        None \<Rightarrow> st\<lparr>invalid := invalid st @ [(index, Missing_code_or_name)]\<rparr>
      | Some code \<Rightarrow>
          if name = [] then st\<lparr>invalid := invalid st @ [(index, Missing_code_or_name)]\<rparr>
          else if code \<in> seen st then
            st\<lparr>duplicates := duplicates st @ [(index, code, name)]\<rparr>
          else
            let st1 = st\<lparr>seen := insert code (seen st)\<rparr>
            in (case classifyEntity (JStr code) name type it of
                  None \<Rightarrow> st1\<lparr>invalid := invalid st1 @ [(index, Invalid_PSGC_pattern)]\<rparr>
                | Some e \<Rightarrow> push_cleaned st1 (etype e) (cleanEntity_of e code it)))))"

fun cleanData_loop :: "clean_state \<Rightarrow> nat \<Rightarrow> item list \<Rightarrow> clean_state" where
  "cleanData_loop st index [] = st"
| "cleanData_loop st index (it # rest) = cleanData_loop (cleanItem st index it) (Suc index) rest"

definition cleanData_run :: "item list \<Rightarrow> clean_state" where
  "cleanData_run data = cleanData_loop clean_init 0 data"

text \<open>\<open>allData\<close>, the array \<open>cleanData\<close> returns.\<close>

definition allData :: "clean_state \<Rightarrow> item list" where
  "allData st =
     cleaned_regions st @ cleaned_provinces st @ cleaned_districts st @ cleaned_cities st @
     cleaned_municipalities st @ cleaned_barangays st"

definition cleanData :: "item list \<Rightarrow> item list" where
  "cleanData data = allData (cleanData_run data)"

text \<open>
  A record passes the checks that precede the duplicate test when reading its name and
  type does not throw, it has a code, and its name is not empty.
\<close>

definition passes_checks :: "item \<Rightarrow> bool" where
  "passes_checks it =
     (case (item_name it, item_type it, item_code it) of
        (Inr name, Inr type, Some code) \<Rightarrow> name \<noteq> []
      | _ \<Rightarrow> False)"

text \<open>Two states with the same lists and the same \<open>seen\<close>, the first with \<open>k\<close> more duplicates.\<close>

definition agree :: "nat \<Rightarrow> clean_state \<Rightarrow> clean_state \<Rightarrow> bool" where
  "agree k st st' \<longleftrightarrow>
     cleaned_regions st = cleaned_regions st' \<and> cleaned_provinces st = cleaned_provinces st' \<and>
     cleaned_districts st = cleaned_districts st' \<and> cleaned_cities st = cleaned_cities st' \<and>
     cleaned_municipalities st = cleaned_municipalities st' \<and>
     cleaned_barangays st = cleaned_barangays st' \<and> seen st = seen st' \<and>
     length (duplicates st) = length (duplicates st') + k"

section \<open>fixMissingRecords.js: fixMissingRecords\<close>

text \<open>\<open>normalizeCode(item.code)\<close>\<close>

definition fix_code :: "item \<Rightarrow> string option" where
  "fix_code it = normalizeCode_fix (get it ''code'')"

text \<open>
  \<^verbatim>\<open>
  const completeMap = new Map();
  completeData.forEach(item => {
    const code = normalizeCode(item.code);
    if (code) { completeMap.set(code, item); }
  });
  \<close>
\<close>

fun build_completeMap :: "(string \<rightharpoonup> item) \<Rightarrow> item list \<Rightarrow> (string \<rightharpoonup> item)" where
  "build_completeMap completeMap [] = completeMap"
| "build_completeMap completeMap (it # rest) =
     build_completeMap
       (case fix_code it of None \<Rightarrow> completeMap | Some code \<Rightarrow> completeMap(code \<mapsto> it)) rest"

text \<open>
  \<^verbatim>\<open>
  sourceData.forEach(item => {
    const code = normalizeCode(item.code);
    if (code) {
      if (!completeMap.has(code)) {
        if (!sourceMap.has(code)) { sourceMap.set(code, item); missingRecords.push(item); }
      } else { /* keep the one from complete file */ }
    }
  });
  \<close>
\<close>

fun find_missing ::
  "(string \<rightharpoonup> item) \<Rightarrow> (string \<rightharpoonup> item) \<times> item list \<Rightarrow> item list \<Rightarrow> (string \<rightharpoonup> item) \<times> item list"
where
  "find_missing completeMap (sourceMap, missingRecords) [] = (sourceMap, missingRecords)"
| "find_missing completeMap (sourceMap, missingRecords) (it # rest) =
     find_missing completeMap
       (case fix_code it of
          None \<Rightarrow> (sourceMap, missingRecords)
        | Some code \<Rightarrow>
            if completeMap code = None then
              (if sourceMap code = None then (sourceMap(code \<mapsto> it), missingRecords @ [it])
               else (sourceMap, missingRecords))
            else (sourceMap, missingRecords))
       rest"

text \<open>
  \<^verbatim>\<open>
  const fixedData = [...completeData];
  missingRecords.forEach(item => {
    const code = normalizeCode(item.code);
    if (code && !completeMap.has(code)) { fixedData.push(item); completeMap.set(code, item); }
  });
  \<close>
\<close>

fun add_missing ::
  "item list \<times> (string \<rightharpoonup> item) \<Rightarrow> item list \<Rightarrow> item list \<times> (string \<rightharpoonup> item)"
where
  "add_missing (fixedData, completeMap) [] = (fixedData, completeMap)"
| "add_missing (fixedData, completeMap) (it # rest) =
     add_missing
       (case fix_code it of
          None \<Rightarrow> (fixedData, completeMap)
        | Some code \<Rightarrow>
            if completeMap code = None then (fixedData @ [it], completeMap(code \<mapsto> it))
            else (fixedData, completeMap))
       rest"

text \<open>
  The function, given the two parsed files. It classifies every record of both files for
  its counts before it merges (and the merged records again after); a classification that
  throws ends the run without a result. The counts themselves are only printed.
\<close>

definition fixMissingRecords :: "item list \<Rightarrow> item list \<Rightarrow> js_error + item list" where
  "fixMissingRecords completeData sourceData =
     (if list_ex (\<lambda>it. isl (classifyEntity_fix it)) (completeData @ sourceData)
      then Inl TypeError
      else
        let completeMap = build_completeMap Map.empty completeData;
            missingRecords = snd (find_missing completeMap (Map.empty, []) sourceData);
            fixedData = fst (add_missing (completeData, completeMap) missingRecords)
        in Inr fixedData)"

text \<open>The normalized codes of a list of records.\<close>

definition codes :: "item list \<Rightarrow> string set" where
  "codes xs = set (List.map_filter fix_code xs)"

text \<open>
  The records of a list that have a code outside \<open>S\<close>, the first record of each code only.
\<close>

fun first_new :: "string set \<Rightarrow> item list \<Rightarrow> item list" where
  "first_new S [] = []"
| "first_new S (it # rest) =
     (case fix_code it of
        None \<Rightarrow> first_new S rest
      | Some code \<Rightarrow> if code \<in> S then first_new S rest else it # first_new (insert code S) rest)"

text \<open>
  The records of the merge scenario: code A in the baseline and in the supplement, code B
  in the supplement only.
\<close>

definition A_baseline :: item where
  "A_baseline = [(''code'', JStr ''130000000''), (''name'', JStr ''NCR (baseline)'')]"

definition A_supplement :: item where
  "A_supplement = [(''code'', JStr ''130000000''), (''name'', JStr ''NCR (supplement)'')]"

definition B_supplement :: item where
  "B_supplement = [(''code'', JStr ''042100000''), (''name'', JStr ''Cavite (supplement)'')]"

section \<open>validatePSGC.js: validateCount; cleanPSGCData.js: compareCount\<close>

text \<open>
  An entry of \<open>PSA_STANDARDS\<close> in validatePSGC.js: \<open>{ exact, min, max }\<close>.
\<close>

record standard =
  exact :: int
  std_min :: int
  std_max :: int

definition PSA_STANDARDS_barangays :: standard where
  "PSA_STANDARDS_barangays = \<lparr>exact = 42011, std_min = 42011, std_max = 42011\<rparr>"

text \<open>The sign the messages start a line with: check mark, warning sign, cross mark.\<close>

datatype mark = Check_mark | Warning_sign | Cross_mark

text \<open>\<open>${diff > 0 ? '+' : ''}${diff}\<close>\<close>

definition signed :: "int \<Rightarrow> string" where
  "signed diff = (if diff > 0 then ''+'' else []) @ show_int diff"

text \<open>
  What a call of \<open>validateCount(name, actual, standard)\<close> does: the line it prints (its
  mark and the text after it) and the value it returns, \<open>null\<close> or the issue. The body
  compares and subtracts numbers and builds strings; no step of it throws.
\<close>

record count_report =
  mark :: mark
  logged :: string
  issue :: "string option"

definition validateCount :: "string \<Rightarrow> int \<Rightarrow> standard \<Rightarrow> count_report" where
  "validateCount name actual standard =
     (let diff = actual - exact standard;
          withinRange = (actual \<ge> std_min standard \<and> actual \<le> std_max standard);
          exactMatch = (actual = exact standard)
      in
        if exactMatch then
          \<lparr>mark = Check_mark,
           logged = name @ '': '' @ show_int actual @ '' (EXACT MATCH with PSA official: '' @
                    show_int (exact standard) @ '')'',
           issue = None\<rparr>
        else if withinRange then
          \<lparr>mark = Warning_sign,
           logged = name @ '': '' @ show_int actual @ '' (PSA official: '' @
                    show_int (exact standard) @ '', difference: '' @ signed diff @ '')'',
           issue = Some (''('' @ name @ '' count ('' @ show_int actual @
                    '') differs from PSA official ('' @ show_int (exact standard) @
                    ''), difference: '' @ signed diff @ '')'')\<rparr>
        else
          \<lparr>mark = Cross_mark,
           logged = name @ '': '' @ show_int actual @ '' (PSA official: '' @
                    show_int (exact standard) @ '', difference: '' @ signed diff @
                    '', OUTSIDE expected range '' @ show_int (std_min standard) @ ''-'' @
                    show_int (std_max standard) @ '')'',
           issue = Some (name @ '' count ('' @ show_int actual @
                    '') outside expected range ('' @ show_int (std_min standard) @ ''-'' @
                    show_int (std_max standard) @ ''), PSA official: '' @
                    show_int (exact standard))\<rparr>)"

text \<open>
  The closure \<open>compareCount(name, actual, expected)\<close> of cleanPSGCData.js (and of
  validatePSGC.js), given two numbers, prints one line and returns nothing: the mark and the
  text after it.
\<close>

definition compareCount :: "string \<Rightarrow> int \<Rightarrow> int \<Rightarrow> mark \<times> string" where
  "compareCount name actual expected =
     (let diff = actual - expected
      in if diff = 0 then (Check_mark, name @ '': '' @ show_int actual @ '' (EXACT MATCH)'')
         else (if diff > 0 then Warning_sign else Cross_mark,
               name @ '': '' @ show_int actual @ '' (expected: '' @ show_int expected @
               '', difference: '' @ signed diff @ '')''))"

text \<open>
  The call sites of \<open>compareCount\<close> in \<open>main\<close> of cleanPSGCData.js:
  \<^verbatim>\<open>
  const cleaned = cleanData(data);
  ...
  compareCount('Regions', cleaned.regions.length, PSA_STANDARDS.regions);
  compareCount('Provinces', cleaned.provinces.length, PSA_STANDARDS.provinces);
  compareCount('Cities', cleaned.cities.length, PSA_STANDARDS.cities);
  compareCount('Municipalities', cleaned.municipalities.length, PSA_STANDARDS.municipalities);
  compareCount('Barangays', cleaned.barangays.length, PSA_STANDARDS.barangays);
  \<close>
  \<open>cleaned\<close> is the array \<open>allData\<close> that \<open>cleanData\<close> returns. A property of an array read by
  a name that is not \<open>length\<close> (nor an index or a method): \<open>undefined\<close>.
\<close>

definition array_prop :: "item list \<Rightarrow> string \<Rightarrow> jsval" where
  "array_prop xs k = (if k = ''length'' then JNum (int (length xs)) else JUndefined)"

text \<open>
  \<open>v.length\<close>: reading a property of \<open>undefined\<close> or \<open>null\<close> throws; a string has its length;
  a number or a boolean has none (\<open>None\<close> is \<open>undefined\<close>).
\<close>

definition length_of :: "jsval \<Rightarrow> js_error + int option" where
  "length_of v =
     (case v of
        JUndefined \<Rightarrow> Inl TypeError
      | JNull \<Rightarrow> Inl TypeError
      | JStr s \<Rightarrow> Inr (Some (int (length s)))
      | _ \<Rightarrow> Inr None)"

text \<open>
  \<open>compareCount\<close> called with a number, or with \<open>undefined\<close>: then \<open>diff\<close> is \<open>NaN\<close>, neither
  \<open>0\<close> nor positive.
\<close>

definition compareCount_call :: "string \<Rightarrow> int option \<Rightarrow> int \<Rightarrow> mark \<times> string" where
  "compareCount_call name actual expected =
     (case actual of
        Some a \<Rightarrow> compareCount name a expected
      | None \<Rightarrow>
          (Cross_mark,
           name @ '': undefined (expected: '' @ show_int expected @ '', difference: NaN)''))"

text \<open>
  The calls in order, each argument evaluated before its call: the lines printed, or the
  exception that the \<open>try\<close> of \<open>main\<close> catches (it prints the error and exits with status 1).
\<close>

fun compare_all :: "item list \<Rightarrow> (string \<times> string \<times> int) list \<Rightarrow> js_error + (mark \<times> string) list" where
  "compare_all cleaned [] = Inr []"
| "compare_all cleaned ((name, prop, expected) # rest) =
     (case length_of (array_prop cleaned prop) of
        Inl err \<Rightarrow> Inl err
      | Inr actual \<Rightarrow>
          (case compare_all cleaned rest of
             Inl err \<Rightarrow> Inl err
           | Inr printed \<Rightarrow> Inr (compareCount_call name actual expected # printed)))"

definition main_compare :: "item list \<Rightarrow> js_error + (mark \<times> string) list" where
  "main_compare data =
     compare_all (cleanData data)
       [(''Regions'', ''regions'', 18), (''Provinces'', ''provinces'', 82),
        (''Cities'', ''cities'', 149), (''Municipalities'', ''municipalities'', 1493),
        (''Barangays'', ''barangays'', 42011)]"

section \<open>database/db.js and importPSGC.js: insertBarangay\<close>

text \<open>
  The tables of database/db.js that \<open>insertBarangay\<close> reads or writes. Each has
  \<open>code TEXT PRIMARY KEY\<close>; of \<open>regions\<close>, \<open>provinces\<close>, \<open>cities\<close> and \<open>municipalities\<close> only the
  codes matter here. A row of \<open>barangays\<close>:
  \<^verbatim>\<open>
  code TEXT PRIMARY KEY, name TEXT NOT NULL, city_code TEXT, municipality_code TEXT,
  province_code TEXT NOT NULL, region_code TEXT NOT NULL, urban_rural TEXT,
  FOREIGN KEY (city_code) REFERENCES cities(code),
  FOREIGN KEY (municipality_code) REFERENCES municipalities(code),
  FOREIGN KEY (province_code) REFERENCES provinces(code),
  FOREIGN KEY (region_code) REFERENCES regions(code)
  \<close>
  \<open>None\<close> is \<open>NULL\<close>. The connection is opened with \<open>PRAGMA foreign_keys = ON\<close>.
\<close>

record barangay_row =
  b_name :: string
  b_city_code :: "string option"
  b_municipality_code :: "string option"
  b_province_code :: string
  b_region_code :: string
  b_urban_rural :: "string option"

record db =
  regions :: "string set"
  provinces :: "string set"
  cities :: "string set"
  municipalities :: "string set"
  barangays :: "string \<rightharpoonup> barangay_row"

text \<open>
  A bound parameter as stored in a TEXT column: \<open>null\<close> and \<open>undefined\<close> are \<open>NULL\<close>, a
  number is stored as its decimal text, a boolean as \<open>1\<close> or \<open>0\<close>.
\<close>

fun sql_text :: "jsval \<Rightarrow> string option" where
  "sql_text JUndefined = None"
| "sql_text JNull = None"
| "sql_text (JBool b) = Some (if b then ''1'' else ''0'')"
| "sql_text (JNum n) = Some (show_int n)"
| "sql_text (JStr s) = Some s"

datatype insert_error = Thrown_TypeError | Constraint_NotNull | Constraint_ForeignKey

text \<open>A foreign key column: \<open>NULL\<close>, or a code of the parent table.\<close>

definition references :: "string option \<Rightarrow> string set \<Rightarrow> bool" where
  "references v parent = (case v of None \<Rightarrow> True | Some c \<Rightarrow> c \<in> parent)"

text \<open>
  \<open>db.run('INSERT OR REPLACE INTO barangays (code, name, city_code, municipality_code,
  province_code, region_code, urban_rural, updated_at) VALUES (?, ?, ?, ?, ?, ?, ?,
  CURRENT_TIMESTAMP)', [...])\<close>: the promise is rejected when a NOT NULL or a foreign key
  constraint fails; otherwise the row of that code is inserted or replaced.
\<close>

definition db_run_insert_barangay ::
  "db \<Rightarrow> string \<Rightarrow> jsval \<Rightarrow> jsval \<Rightarrow> jsval \<Rightarrow> jsval \<Rightarrow> jsval \<Rightarrow> jsval \<Rightarrow> insert_error + db"
where
  "db_run_insert_barangay d code name city_code municipality_code province_code region_code
       urban_rural =
     (case (sql_text name, sql_text province_code, sql_text region_code) of
        (Some n, Some p, Some r) \<Rightarrow>
          if references (sql_text city_code) (cities d) \<and>
             references (sql_text municipality_code) (municipalities d) \<and>
             p \<in> provinces d \<and> r \<in> regions d
          then Inr (d\<lparr>barangays := (barangays d)(code \<mapsto>
                 \<lparr>b_name = n, b_city_code = sql_text city_code,
                  b_municipality_code = sql_text municipality_code,
                  b_province_code = p, b_region_code = r,
                  b_urban_rural = sql_text urban_rural\<rparr>)\<rparr>)
          else Inl Constraint_ForeignKey
      | _ \<Rightarrow> Inl Constraint_NotNull)"

text \<open>
  \<^verbatim>\<open>
  async function insertBarangay(data) {
    const cityMuniCode = data.code.substring(0, 6) + '000';
    let cityCode = data.city_code || null;
    let municipalityCode = data.municipality_code || null;
    if (!cityCode && !municipalityCode) {
      const cityExists = await db.get('SELECT code FROM cities WHERE code = ?', [cityMuniCode]);
      const muniExists = await db.get('SELECT code FROM municipalities WHERE code = ?', [cityMuniCode]);
      if (cityExists) { cityCode = cityMuniCode; }
      else if (muniExists) { municipalityCode = cityMuniCode; }
    }
    await db.run(`INSERT OR REPLACE INTO barangays ...`,
      [data.code, data.name, cityCode, municipalityCode, data.province_code,
       data.region_code, data.urban_rural || null]);
  }
  \<close>
  \<open>data.code.substring\<close> throws unless the code is a string.
\<close>

definition insertBarangay :: "db \<Rightarrow> item \<Rightarrow> insert_error + db" where
  "insertBarangay d data =
     (case get data ''code'' of
        JStr code \<Rightarrow>
          let cityMuniCode = take 6 code @ ''000'';
              cityCode = jor (get data ''city_code'') JNull;
              municipalityCode = jor (get data ''municipality_code'') JNull;
              cityExists = (cityMuniCode \<in> cities d);
              muniExists = (cityMuniCode \<in> municipalities d);
              cityCode' =
                (if \<not> truthy cityCode \<and> \<not> truthy municipalityCode \<and> cityExists
                 then JStr cityMuniCode else cityCode);
              municipalityCode' =
                (if \<not> truthy cityCode \<and> \<not> truthy municipalityCode \<and> \<not> cityExists \<and> muniExists
                 then JStr cityMuniCode else municipalityCode)
          in db_run_insert_barangay d code (get data ''name'') cityCode' municipalityCode'
               (get data ''province_code'') (get data ''region_code'')
               (jor (get data ''urban_rural'') JNull)
      | _ \<Rightarrow> Inl Thrown_TypeError)"

text \<open>A database and a barangay record for the scenarios of parentage resolution.\<close>

definition cavite_db :: "string set \<Rightarrow> string set \<Rightarrow> db" where
  "cavite_db cs ms =
     \<lparr>regions = {''040000000''}, provinces = {''042100000''}, cities = cs,
      municipalities = ms, barangays = Map.empty\<rparr>"

definition binakayan :: item where
  "binakayan =
     [(''code'', JStr ''042111001''), (''name'', JStr ''Binakayan''),
      (''province_code'', JStr ''042100000''), (''region_code'', JStr ''040000000'')]"

section \<open>Facts about normalizeCode\<close>

lemma trim_digits: "list_all is_digit s \<Longrightarrow> trim s = s"
proof (cases s rule: rev_cases)
  case Nil
  then show ?thesis by (simp add: trim_def)
next
  case (snoc ys y)
  assume d: "list_all is_digit s"
  have y: "\<not> is_space y" using d snoc by (auto simp: is_digit_def is_space_def)
  show ?thesis
  proof (cases s)
    case Nil
    then show ?thesis by (simp add: trim_def)
  next
    case (Cons x xs)
    have x: "\<not> is_space x" using d Cons by (auto simp: is_digit_def is_space_def)
    have "dropWhile is_space s = s" using Cons x by simp
    moreover have "dropWhile is_space (rev s) = rev s" using snoc y by simp
    ultimately show ?thesis by (simp add: trim_def)
  qed
qed

lemma strip_digits: "list_all is_digit s \<Longrightarrow> strip_non_digits s = s"
  by (induction s) (auto simp: strip_non_digits_def)

lemma strip_all_digits: "list_all is_digit (strip_non_digits s)"
  by (induction s) (auto simp: strip_non_digits_def)

lemma length_take_padStart: "length (take 9 (padStart 9 s)) = 9"
  by (simp add: padStart_def)

lemma digits_take_padStart:
  assumes "list_all is_digit s"
  shows "list_all is_digit (take 9 (padStart 9 s))"
proof -
  have "is_digit CHR ''0''" by (simp add: is_digit_def)
  then have "list_all is_digit (padStart 9 s)"
    using assms by (auto simp: padStart_def list_all_iff)
  then show ?thesis
    using set_take_subset [of 9 "padStart 9 s"] by (auto simp: list_all_iff)
qed

lemma take_padStart_id: "length s = 9 \<Longrightarrow> take 9 (padStart 9 s) = s"
  by (simp add: padStart_def)

lemma normalizeCode_clean_shape:
  assumes "normalizeCode_clean x = Some s"
  shows "length s = 9 \<and> list_all is_digit s"
proof -
  from assms have "s = take 9 (padStart 9 (strip_non_digits (trim (String x))))"
    by (auto simp: normalizeCode_clean_def Let_def split: if_splits)
  then show ?thesis
    using length_take_padStart digits_take_padStart [OF strip_all_digits] by simp
qed

lemma normalizeCode_clean_fixpoint:
  assumes "length s = 9" and "list_all is_digit s"
  shows "normalizeCode_clean (JStr s) = Some s"
proof -
  have "s \<noteq> []" using assms(1) by auto
  moreover have "strip_non_digits (trim s) = s"
    using assms(2) by (simp add: trim_digits strip_digits)
  ultimately show ?thesis
    using assms(1) by (simp add: normalizeCode_clean_def take_padStart_id)
qed

section \<open>Claims about normalizeCode\<close>

text \<open>
  C3. The claim: the 10-digit input \<open>"0137401000"\<close> normalizes to \<open>"137401000"\<close>, the
  leading zero dropped. The \<open>normalizeCode\<close> of cleanPSGCData.js has no rule for 10-digit
  codes: it keeps the first nine characters, so the trailing digit is the one dropped.
\<close>

theorem normalizeCode_clean_ten_digits:
  "normalizeCode_clean (JStr ''0137401000'') = Some ''013740100''"
  by code_simp

text \<open>
  The download scripts (downloadFromPSA.js, fetchFromPSGCCloud.js) do what C3 says.
\<close>

lemma normalizeCode_psa_ten_digits:
  "normalizeCode_psa (JStr ''0137401000'') = Some ''137401000''"
  by (simp add: normalizeCode_psa_def)

lemma normalizeCode_cloud_ten_digits:
  "normalizeCode_cloud (JStr ''0137401000'') = ''137401000''"
  by (simp add: normalizeCode_cloud_def)

text \<open>
  C8. \<open>normalizeCode\<close> of cleanPSGCData.js is idempotent: whenever it returns a code for a
  raw input, normalizing that code again returns the same code.
\<close>

theorem normalizeCode_idempotent:
  assumes "normalizeCode_clean x = Some s"
  shows "normalizeCode_clean (JStr s) = normalizeCode_clean x"
proof -
  from assms have "length s = 9" and "list_all is_digit s"
    using normalizeCode_clean_shape by blast+
  then have "normalizeCode_clean (JStr s) = Some s"
    by (rule normalizeCode_clean_fixpoint)
  with assms show ?thesis by simp
qed

theorem normalizeCode_idempotent_witness:
  "normalizeCode_clean (JStr '' PH-4211 '') = Some ''000004211'' \<and>
   normalizeCode_clean (JStr ''000004211'') = normalizeCode_clean (JStr '' PH-4211 '')"
proof -
  have h: "normalizeCode_clean (JStr '' PH-4211 '') = Some ''000004211''"
    by code_simp
  from normalizeCode_idempotent [OF h] h show ?thesis by simp
qed

text \<open>
  C9. Whenever \<open>normalizeCode\<close> does not return \<open>null\<close>, the string it returns has exactly
  nine characters; this holds for the version of cleanPSGCData.js and for the version of
  importPSGC.js, whatever the length of the source representation.
\<close>

theorem normalizeCode_length_nine:
  "(normalizeCode_clean x = Some s \<longrightarrow> length s = 9) \<and>
   (normalizeCode_import y = Some t \<longrightarrow> length t = 9)"
proof
  show "normalizeCode_clean x = Some s \<longrightarrow> length s = 9"
    using normalizeCode_clean_shape by blast
  show "normalizeCode_import y = Some t \<longrightarrow> length t = 9"
  proof
    assume "normalizeCode_import y = Some t"
    then have "t = take 9 (padStart 9 (trim (String y)))"
      by (simp add: normalizeCode_import_def Let_def split: if_splits)
    then show "length t = 9"
      using length_take_padStart by blast
  qed
qed

theorem normalizeCode_length_nine_witness:
  "normalizeCode_clean (JNum 42) = Some ''000000042'' \<and> length ''000000042'' = 9 \<and>
   normalizeCode_import (JStr ''13740100099'') = Some ''137401000'' \<and> length ''137401000'' = 9"
proof -
  have a: "normalizeCode_clean (JNum 42) = Some ''000000042''"
    by code_simp
  have b: "normalizeCode_import (JStr ''13740100099'') = Some ''137401000''"
    by code_simp
  from normalizeCode_length_nine [of "JNum 42" "''000000042''" "JStr ''13740100099''" "''137401000''"]
    a b show ?thesis by simp
qed

section \<open>Facts about the code patterns\<close>

lemma startsWith_take: "startsWith s p \<longleftrightarrow> take (length p) s = p"
  by (induction s p rule: startsWith.induct) auto

lemma endsWith_000:
  assumes "length c = 9"
  shows "endsWith c ''000'' \<longleftrightarrow> drop 6 c = ''000''"
proof -
  have "endsWith c ''000'' \<longleftrightarrow> rev (drop 6 c) = ''000''"
    using assms by (simp add: endsWith_def startsWith_take take_rev)
  also have "\<dots> \<longleftrightarrow> drop 6 c = rev ''000''"
    by (metis rev_rev_ident)
  finally show ?thesis by simp
qed

lemma zeros_literals:
  "replicate 7 CHR ''0'' = ''0000000''"
  "replicate 5 CHR ''0'' = ''00000''"
  "replicate 4 CHR ''0'' = ''0000''"
  "replicate 3 CHR ''0'' = ''000''"
  by (simp_all add: eval_nat_numeral)

lemma pattern_of_code:
  assumes "length c = 9" and "list_all is_digit c" and "n + z = 9"
  shows "digits_then_zeros n z c \<longleftrightarrow> drop n c = replicate z CHR ''0''"
proof -
  have "list_all is_digit (take n c)"
    using assms(2) set_take_subset [of n c] by (auto simp: list_all_iff)
  then show ?thesis
    using assms(1,3) by (simp add: digits_then_zeros_def)
qed

lemma zero_suffix_shorter:
  assumes "drop n c = replicate z CHR ''0''"
  shows "drop (n + k) c = replicate (z - k) CHR ''0''"
proof -
  have "drop (n + k) c = drop k (drop n c)"
    by (simp add: add.commute)
  then show ?thesis using assms by simp
qed

lemma zero_suffixes:
  "drop 2 c = ''0000000'' \<Longrightarrow> drop 4 c = ''00000''"
  "drop 4 c = ''00000'' \<Longrightarrow> drop 5 c = ''0000''"
  "drop 5 c = ''0000'' \<Longrightarrow> drop 6 c = ''000''"
  using zero_suffix_shorter [of 2 c 7 2] zero_suffix_shorter [of 4 c 5 1]
    zero_suffix_shorter [of 5 c 4 1]
  by (simp_all add: zeros_literals)

lemma patterns_of_code:
  assumes "length c = 9" and "list_all is_digit c"
  shows "digits_then_zeros 2 7 c \<longleftrightarrow> drop 2 c = ''0000000''"
    and "digits_then_zeros 4 5 c \<longleftrightarrow> drop 4 c = ''00000''"
    and "digits_then_zeros 5 4 c \<longleftrightarrow> drop 5 c = ''0000''"
    and "digits_then_zeros 6 3 c \<longleftrightarrow> drop 6 c = ''000''"
    and "digits_then_zeros 9 0 c"
  using pattern_of_code [OF assms, of 2 7] pattern_of_code [OF assms, of 4 5]
    pattern_of_code [OF assms, of 5 4] pattern_of_code [OF assms, of 6 3]
    pattern_of_code [OF assms, of 9 0] assms(1)
  by (simp_all add: zeros_literals)

section \<open>Classification by code shape\<close>

text \<open>
  C1, as stated: for a valid code one of the four shapes Region, Province,
  City/Municipality and Barangay is returned. The classifiers have a fifth branch, tried
  before the City/Municipality one: a code \<open>XXYYZ0000\<close> is a district. So the code
  \<open>137410000\<close>, of City/Municipality shape in the claim's grammar (digits 7 to 9 zero, digits
  5 and 6 not both zero), gets none of the four levels.
\<close>

theorem classifyEntity_district_counterexample:
  "map_option etype (classifyEntity (JStr ''137410000'') ''Sample'' [] []) = Some District \<and>
   District \<notin> {Region, Province, City, Municipality, Barangay} \<and>
   validateDataFile_classify (Some ''137410000'') ''Sample'' (JStr []) = Some Districts"
  by code_simp

text \<open>
  The sibling classifier of fixMissingRecords.js has no district branch: the same code, of
  City/Municipality shape, is a municipality there.
\<close>

lemma classifyEntity_fix_137410000:
  "classifyEntity_fix [(''code'', JStr ''137410000''), (''name'', JStr ''Sample'')]
     = Inr (Some Municipality)"
  by code_simp

text \<open>
  What the two classifiers return for a 9-digit code other than \<open>000000000\<close>, by the zeros
  the code ends with.
\<close>

lemma classifyEntity_shapes:
  assumes "length c = 9" and "list_all is_digit c" and "c \<noteq> ''000000000''"
  shows "\<exists>e. classifyEntity (JStr c) name type row = Some e \<and> ecode e = c \<and>
           (etype e = Region \<longleftrightarrow> drop 2 c = ''0000000'') \<and>
           (etype e = Province \<longleftrightarrow> drop 4 c = ''00000'' \<and> drop 2 c \<noteq> ''0000000'') \<and>
           (etype e = District \<longleftrightarrow> drop 5 c = ''0000'' \<and> drop 4 c \<noteq> ''00000'') \<and>
           (etype e \<in> {City, Municipality} \<longleftrightarrow> drop 6 c = ''000'' \<and> drop 5 c \<noteq> ''0000'') \<and>
           (etype e = Barangay \<longleftrightarrow> drop 6 c \<noteq> ''000'')"
proof -
  note pats = patterns_of_code [OF assms(1,2)] endsWith_000 [OF assms(1)]
  have norm: "normalizeCode_clean (JStr c) = Some c"
    using assms(1,2) by (rule normalizeCode_clean_fixpoint)
  consider (region) "drop 2 c = ''0000000''"
    | (province) "drop 2 c \<noteq> ''0000000''" "drop 4 c = ''00000''"
    | (district) "drop 4 c \<noteq> ''00000''" "drop 5 c = ''0000''"
    | (citymuni) "drop 5 c \<noteq> ''0000''" "drop 6 c = ''000''"
    | (barangay) "drop 6 c \<noteq> ''000''"
    by blast
  then show ?thesis
  proof cases
    case region
    then show ?thesis
      using zero_suffixes [of c] assms(3)
      by (simp add: classifyEntity_def norm pats Let_def)
  next
    case province
    then show ?thesis
      using zero_suffixes [of c] assms(3)
      by (simp add: classifyEntity_def norm pats Let_def)
  next
    case district
    then have "drop 2 c \<noteq> ''0000000''" using zero_suffixes(1) [of c] by blast
    with district show ?thesis
      using zero_suffixes [of c] assms(3)
      by (simp add: classifyEntity_def norm pats Let_def)
  next
    case citymuni
    then have "drop 4 c \<noteq> ''00000''" "drop 2 c \<noteq> ''0000000''"
      using zero_suffixes [of c] by blast+
    with citymuni show ?thesis
      using assms(3)
      by (simp add: classifyEntity_def norm pats Let_def)
  next
    case barangay
    then have "drop 5 c \<noteq> ''0000''" "drop 4 c \<noteq> ''00000''" "drop 2 c \<noteq> ''0000000''"
      using zero_suffixes [of c] by blast+
    with barangay show ?thesis
      using assms(3)
      by (simp add: classifyEntity_def norm pats Let_def)
  qed
qed

lemma validateDataFile_classify_shapes:
  assumes "length c = 9" and "list_all is_digit c" and "c \<noteq> ''000000000''"
  shows "\<exists>k. validateDataFile_classify (Some c) name type = Some k \<and> k \<noteq> Unknown \<and>
           (k = Regions \<longleftrightarrow> drop 2 c = ''0000000'') \<and>
           (k = Provinces \<longleftrightarrow> drop 4 c = ''00000'' \<and> drop 2 c \<noteq> ''0000000'') \<and>
           (k = Districts \<longleftrightarrow> drop 5 c = ''0000'' \<and> drop 4 c \<noteq> ''00000'') \<and>
           (k \<in> {Cities, Municipalities} \<longleftrightarrow> drop 6 c = ''000'' \<and> drop 5 c \<noteq> ''0000'') \<and>
           (k = Barangays \<longleftrightarrow> drop 6 c \<noteq> ''000'')"
proof -
  note pats = patterns_of_code [OF assms(1,2)] endsWith_000 [OF assms(1)]
  consider (region) "drop 2 c = ''0000000''"
    | (province) "drop 2 c \<noteq> ''0000000''" "drop 4 c = ''00000''"
    | (district) "drop 4 c \<noteq> ''00000''" "drop 5 c = ''0000''"
    | (citymuni) "drop 5 c \<noteq> ''0000''" "drop 6 c = ''000''"
    | (barangay) "drop 6 c \<noteq> ''000''"
    by blast
  then show ?thesis
  proof cases
    case region
    then show ?thesis
      using zero_suffixes [of c] assms(3)
      by (simp add: validateDataFile_classify_def pats)
  next
    case province
    then show ?thesis
      using zero_suffixes [of c] assms(3)
      by (simp add: validateDataFile_classify_def pats)
  next
    case district
    then have "drop 2 c \<noteq> ''0000000''" using zero_suffixes(1) [of c] by blast
    with district show ?thesis
      using zero_suffixes [of c] assms(3)
      by (simp add: validateDataFile_classify_def pats)
  next
    case citymuni
    then have "drop 4 c \<noteq> ''00000''" "drop 2 c \<noteq> ''0000000''"
      using zero_suffixes [of c] by blast+
    with citymuni show ?thesis
      using assms(3)
      by (simp add: validateDataFile_classify_def pats)
  next
    case barangay
    then have "drop 5 c \<noteq> ''0000''" "drop 4 c \<noteq> ''00000''" "drop 2 c \<noteq> ''0000000''"
      using zero_suffixes [of c] by blast+
    with barangay show ?thesis
      using assms(3)
      by (simp add: validateDataFile_classify_def pats)
  qed
qed

text \<open>
  C1, amended: for every 9-digit code other than \<open>000000000\<close>, \<open>classifyEntity\<close> of
  cleanPSGCData.js returns an entity with that code and \<open>validateDataFile\<close> counts the code
  in a category: neither has the outcome "no level" (\<open>null\<close>, unknown). When the code is not
  of the form \<open>XXYYZ0000\<close> (digits 6 to 9 zero, digit 5 not zero), exactly one of the four
  shapes of the claim matches and both classifiers return it: Region (digits 3 to 9 zero),
  Province (digits 5 to 9 zero, digits 3 and 4 not both zero), City or Municipality (digits
  7 to 9 zero, digits 5 and 6 not both zero), Barangay (digits 7 to 9 not all zero).
\<close>

theorem classification_total_four_shapes:
  assumes "length c = 9" and "list_all is_digit c" and "c \<noteq> ''000000000''"
  shows "(\<exists>e. classifyEntity (JStr c) name type row = Some e \<and> ecode e = c \<and>
            (\<not> (drop 5 c = ''0000'' \<and> drop 4 c \<noteq> ''00000'') \<longrightarrow>
               (etype e = Region \<longleftrightarrow> drop 2 c = ''0000000'') \<and>
               (etype e = Province \<longleftrightarrow> drop 4 c = ''00000'' \<and> drop 2 c \<noteq> ''0000000'') \<and>
               (etype e \<in> {City, Municipality} \<longleftrightarrow> drop 6 c = ''000'' \<and> drop 4 c \<noteq> ''00000'') \<and>
               (etype e = Barangay \<longleftrightarrow> drop 6 c \<noteq> ''000'') \<and>
               etype e \<in> {Region, Province, City, Municipality, Barangay})) \<and>
         (\<exists>k. validateDataFile_classify (Some c) name' type' = Some k \<and> k \<noteq> Unknown \<and>
            (\<not> (drop 5 c = ''0000'' \<and> drop 4 c \<noteq> ''00000'') \<longrightarrow>
               (k = Regions \<longleftrightarrow> drop 2 c = ''0000000'') \<and>
               (k = Provinces \<longleftrightarrow> drop 4 c = ''00000'' \<and> drop 2 c \<noteq> ''0000000'') \<and>
               (k \<in> {Cities, Municipalities} \<longleftrightarrow> drop 6 c = ''000'' \<and> drop 4 c \<noteq> ''00000'') \<and>
               (k = Barangays \<longleftrightarrow> drop 6 c \<noteq> ''000'') \<and>
               k \<in> {Regions, Provinces, Cities, Municipalities, Barangays}))"
proof
  obtain e where e: "classifyEntity (JStr c) name type row = Some e" "ecode e = c"
      "etype e = Region \<longleftrightarrow> drop 2 c = ''0000000''"
      "etype e = Province \<longleftrightarrow> drop 4 c = ''00000'' \<and> drop 2 c \<noteq> ''0000000''"
      "etype e = District \<longleftrightarrow> drop 5 c = ''0000'' \<and> drop 4 c \<noteq> ''00000''"
      "etype e \<in> {City, Municipality} \<longleftrightarrow> drop 6 c = ''000'' \<and> drop 5 c \<noteq> ''0000''"
      "etype e = Barangay \<longleftrightarrow> drop 6 c \<noteq> ''000''"
    using classifyEntity_shapes [OF assms] by blast
  have "\<not> (drop 5 c = ''0000'' \<and> drop 4 c \<noteq> ''00000'') \<longrightarrow>
          (etype e \<in> {City, Municipality} \<longleftrightarrow> drop 6 c = ''000'' \<and> drop 4 c \<noteq> ''00000'') \<and>
          etype e \<in> {Region, Province, City, Municipality, Barangay}"
    using e(5,6) zero_suffixes(2) [of c] by (cases "etype e") auto
  with e(1-4,7)
  show "\<exists>e. classifyEntity (JStr c) name type row = Some e \<and> ecode e = c \<and>
            (\<not> (drop 5 c = ''0000'' \<and> drop 4 c \<noteq> ''00000'') \<longrightarrow>
               (etype e = Region \<longleftrightarrow> drop 2 c = ''0000000'') \<and>
               (etype e = Province \<longleftrightarrow> drop 4 c = ''00000'' \<and> drop 2 c \<noteq> ''0000000'') \<and>
               (etype e \<in> {City, Municipality} \<longleftrightarrow> drop 6 c = ''000'' \<and> drop 4 c \<noteq> ''00000'') \<and>
               (etype e = Barangay \<longleftrightarrow> drop 6 c \<noteq> ''000'') \<and>
               etype e \<in> {Region, Province, City, Municipality, Barangay})"
    by (intro exI [of _ e]) simp
next
  obtain k where k: "validateDataFile_classify (Some c) name' type' = Some k" "k \<noteq> Unknown"
      "k = Regions \<longleftrightarrow> drop 2 c = ''0000000''"
      "k = Provinces \<longleftrightarrow> drop 4 c = ''00000'' \<and> drop 2 c \<noteq> ''0000000''"
      "k = Districts \<longleftrightarrow> drop 5 c = ''0000'' \<and> drop 4 c \<noteq> ''00000''"
      "k \<in> {Cities, Municipalities} \<longleftrightarrow> drop 6 c = ''000'' \<and> drop 5 c \<noteq> ''0000''"
      "k = Barangays \<longleftrightarrow> drop 6 c \<noteq> ''000''"
    using validateDataFile_classify_shapes [OF assms] by blast
  have "\<not> (drop 5 c = ''0000'' \<and> drop 4 c \<noteq> ''00000'') \<longrightarrow>
          (k \<in> {Cities, Municipalities} \<longleftrightarrow> drop 6 c = ''000'' \<and> drop 4 c \<noteq> ''00000'') \<and>
          k \<in> {Regions, Provinces, Cities, Municipalities, Barangays}"
    using k(2,5,6) zero_suffixes(2) [of c] by (cases k) auto
  with k(1-4,7)
  show "\<exists>k. validateDataFile_classify (Some c) name' type' = Some k \<and> k \<noteq> Unknown \<and>
            (\<not> (drop 5 c = ''0000'' \<and> drop 4 c \<noteq> ''00000'') \<longrightarrow>
               (k = Regions \<longleftrightarrow> drop 2 c = ''0000000'') \<and>
               (k = Provinces \<longleftrightarrow> drop 4 c = ''00000'' \<and> drop 2 c \<noteq> ''0000000'') \<and>
               (k \<in> {Cities, Municipalities} \<longleftrightarrow> drop 6 c = ''000'' \<and> drop 4 c \<noteq> ''00000'') \<and>
               (k = Barangays \<longleftrightarrow> drop 6 c \<noteq> ''000'') \<and>
               k \<in> {Regions, Provinces, Cities, Municipalities, Barangays})"
    by (intro exI [of _ k]) simp
qed

theorem classification_total_four_shapes_witness:
  "length ''042111000'' = 9 \<and> list_all is_digit ''042111000'' \<and> ''042111000'' \<noteq> ''000000000'' \<and>
   \<not> (drop 5 ''042111000'' = ''0000'' \<and> drop 4 ''042111000'' \<noteq> ''00000'') \<and>
   (\<exists>e. classifyEntity (JStr ''042111000'') ''Kawit'' ''Mun'' [] = Some e \<and>
        ecode e = ''042111000'' \<and> etype e \<in> {City, Municipality}) \<and>
   (\<exists>k. validateDataFile_classify (Some ''042111000'') ''Kawit'' (JStr ''Mun'') = Some k \<and>
        k \<noteq> Unknown \<and> k \<in> {Cities, Municipalities})"
proof -
  have h1: "length ''042111000'' = 9" by simp
  have h2: "list_all is_digit ''042111000''" by (simp add: is_digit_def)
  have h3: "''042111000'' \<noteq> ''000000000''" by simp
  have d: "\<not> (drop 5 ''042111000'' = ''0000'' \<and> drop 4 ''042111000'' \<noteq> ''00000'')"
    "drop 6 ''042111000'' = ''000'' \<and> drop 4 ''042111000'' \<noteq> ''00000''"
    by simp_all
  note t = classification_total_four_shapes [OF h1 h2 h3,
      of "''Kawit''" "''Mun''" "[]" "''Kawit''" "JStr ''Mun''"]
  from t obtain e where e: "classifyEntity (JStr ''042111000'') ''Kawit'' ''Mun'' [] = Some e"
      "ecode e = ''042111000''"
      "\<not> (drop 5 ''042111000'' = ''0000'' \<and> drop 4 ''042111000'' \<noteq> ''00000'') \<longrightarrow>
         (etype e \<in> {City, Municipality} \<longleftrightarrow>
            drop 6 ''042111000'' = ''000'' \<and> drop 4 ''042111000'' \<noteq> ''00000'')"
    by blast
  from t obtain k where k:
      "validateDataFile_classify (Some ''042111000'') ''Kawit'' (JStr ''Mun'') = Some k"
      "k \<noteq> Unknown"
      "\<not> (drop 5 ''042111000'' = ''0000'' \<and> drop 4 ''042111000'' \<noteq> ''00000'') \<longrightarrow>
         (k \<in> {Cities, Municipalities} \<longleftrightarrow>
            drop 6 ''042111000'' = ''000'' \<and> drop 4 ''042111000'' \<noteq> ''00000'')"
    by blast
  from e(3) d have e': "etype e \<in> {City, Municipality}" by blast
  from k(3) d have k': "k \<in> {Cities, Municipalities}" by blast
  from e(1,2) e' k(1,2) k' h1 h2 h3 d(1) show ?thesis by blast
qed

section \<open>City or municipality\<close>

lemma startsWith_map: "startsWith s p \<Longrightarrow> startsWith (map f s) (map f p)"
  by (induction s p rule: startsWith.induct) auto

lemma str_includes_map: "str_includes s sub \<Longrightarrow> str_includes (map f s) (map f sub)"
proof (induction s)
  case Nil
  then show ?case by simp
next
  case (Cons c cs)
  then show ?case
    using startsWith_map [of "c # cs" sub f] by auto
qed

lemma municipality_of_lower:
  assumes "str_includes n ''municipality of''"
  shows "str_includes (toLowerCase n) ''municipality of''"
proof -
  have "map lower_char ''municipality of'' = ''municipality of''"
    by code_simp
  then show ?thesis
    using str_includes_map [OF assms, of lower_char] by (simp add: toLowerCase_def)
qed

text \<open>
  \<open>classifyEntity\<close> of fixMissingRecords.js: a record of City/Municipality shape (the code
  ends in three zeros and is not a province or region code) whose name contains
  "municipality of", in any letter case, is a municipality, whatever its type, its
  city-class fields and the rest of its name say.
\<close>

lemma classifyEntity_fix_municipality_of:
  assumes code: "normalizeCode_fix (get it ''code'') = Some c"
    and shape: "digits_then_zeros 6 3 c" "\<not> digits_then_zeros 4 5 c" "\<not> digits_then_zeros 2 7 c"
    and name: "get it ''name'' = JStr n" "str_includes (toLowerCase n) ''municipality of''"
    and type: "get it ''type'' = JStr t \<or> \<not> truthy (get it ''type'')"
  shows "classifyEntity_fix it = Inr (Some Municipality)"
proof -
  have "n \<noteq> []" using name(2) by (auto simp: toLowerCase_def)
  then have nm: "as_string (jor (get it ''name'') (JStr [])) = Inr n"
    using name(1) by (simp add: jor_def as_string_def)
  obtain t' where ty: "as_string (jor (get it ''type'') (JStr [])) = Inr t'"
    using type by (cases "truthy (get it ''type'')") (auto simp: jor_def as_string_def)
  have "\<not> isCity_fix (toLowerCase n) (toLowerCase t') it"
    using name(2) by (simp add: isCity_fix_def isExplicitMunicipality_def)
  then show ?thesis
    using code shape nm ty by (simp add: classifyEntity_fix_def)
qed

lemma classifyEntity_fix_municipality_of_example:
  "classifyEntity_fix [(''code'', JStr ''137606000''), (''name'', JStr ''Municipality of Pateros''),
      (''type'', JStr ''City''), (''city_class'', JStr ''CC'')] = Inr (Some Municipality)"
  by code_simp

text \<open>
  C4. The claim: with City/Municipality code shape, a name containing "municipality of"
  forces Municipality regardless of explicit type, city-class attribute or "city" in the
  name. \<open>classifyEntity\<close> of cleanPSGCData.js has no such rule: each of the three other
  signals makes the record a city.
\<close>

theorem classifyEntity_clean_municipality_of:
  "map_option etype (classifyEntity (JStr ''137606000'') ''Municipality of Pateros'' ''City'' [])
     = Some City \<and>
   map_option etype (classifyEntity (JStr ''137606000'') ''Municipality of Pateros'' []
     [(''city_class'', JStr ''CC'')]) = Some City \<and>
   map_option etype (classifyEntity (JStr ''137606000'') ''Municipality of Pateros City'' [] [])
     = Some City \<and>
   str_includes (toLowerCase ''Municipality of Pateros'') ''municipality of''"
  by code_simp

section \<open>Duplicates in cleanData\<close>

lemma agree_cleanItem:
  assumes "agree k st st'"
  shows "agree k (cleanItem st i it) (cleanItem st' j it)"
  using assms
  by (auto simp: agree_def cleanItem_def push_cleaned_def Let_def
      split: sum.splits option.splits level.splits)

lemma agree_loop:
  "agree k st st' \<Longrightarrow> agree k (cleanData_loop st i xs) (cleanData_loop st' j xs)"
proof (induction xs arbitrary: st st' i j)
  case Nil
  then show ?case by simp
next
  case (Cons x xs)
  from Cons.prems have "agree k (cleanItem st i x) (cleanItem st' j x)"
    by (rule agree_cleanItem)
  then show ?case by (simp add: Cons.IH)
qed

lemma cleanData_loop_append:
  "cleanData_loop st i (xs @ ys) = cleanData_loop (cleanData_loop st i xs) (i + length xs) ys"
  by (induction xs arbitrary: st i) auto

lemma seen_cleanItem:
  "seen (cleanItem st i it) =
     (if passes_checks it then insert (the (item_code it)) (seen st) else seen st)"
  by (auto simp: cleanItem_def passes_checks_def push_cleaned_def Let_def
      split: sum.splits option.splits level.splits)

lemma seen_loop:
  "seen (cleanData_loop st i xs) =
     seen st \<union> {c. \<exists>a \<in> set xs. passes_checks a \<and> item_code a = Some c}"
proof (induction xs arbitrary: st i)
  case Nil
  then show ?case by simp
next
  case (Cons x xs)
  show ?case
    by (auto simp: Cons.IH seen_cleanItem passes_checks_def split: sum.splits option.splits)
qed

lemma duplicates_cleanItem: "\<exists>l. duplicates (cleanItem st i it) = duplicates st @ l"
  by (auto simp: cleanItem_def push_cleaned_def Let_def
      split: sum.splits option.splits level.splits)

lemma duplicates_loop: "\<exists>l. duplicates (cleanData_loop st i xs) = duplicates st @ l"
proof (induction xs arbitrary: st i)
  case Nil
  then show ?case by simp
next
  case (Cons x xs)
  obtain l1 where "duplicates (cleanItem st i x) = duplicates st @ l1"
    using duplicates_cleanItem by blast
  moreover obtain l2 where
    "duplicates (cleanData_loop (cleanItem st i x) (Suc i) xs) = duplicates (cleanItem st i x) @ l2"
    using Cons.IH by blast
  ultimately show ?case by simp
qed

lemma cleanItem_duplicate:
  assumes "passes_checks b" and "item_code b = Some c" and "item_name b = Inr n"
    and "c \<in> seen st"
  shows "cleanItem st i b = st\<lparr>duplicates := duplicates st @ [(i, c, n)]\<rparr>"
  using assms
  by (auto simp: cleanItem_def passes_checks_def split: sum.splits option.splits)

text \<open>
  C2, as stated: when a code appears twice in a batch, the later record replaces the
  earlier one in the output. \<open>cleanData\<close> tests \<open>seen\<close> before it classifies and returns at
  once on a hit: of two records with the code \<open>137401000\<close> the output holds the first, as
  if the batch were the first record alone, and the second is logged as a duplicate.
\<close>

theorem cleanData_last_seen_counterexample:
  "map (\<lambda>e. get e ''name'')
     (cleanData [[(''code'', JStr ''137401000''), (''name'', JStr ''City of Manila'')],
                 [(''code'', JStr ''137401000''), (''name'', JStr ''Manila (revised)'')]])
     = [JStr ''City of Manila''] \<and>
   cleanData [[(''code'', JStr ''137401000''), (''name'', JStr ''City of Manila'')],
              [(''code'', JStr ''137401000''), (''name'', JStr ''Manila (revised)'')]]
     \<noteq> cleanData [[(''code'', JStr ''137401000''), (''name'', JStr ''Manila (revised)'')]] \<and>
   duplicates
     (cleanData_run [[(''code'', JStr ''137401000''), (''name'', JStr ''City of Manila'')],
                     [(''code'', JStr ''137401000''), (''name'', JStr ''Manila (revised)'')]])
     = [(1, ''137401000'', ''Manila (revised)'')]"
  by code_simp

text \<open>
  C2, amended: when the normalized code of a record has already appeared in the batch (in
  an earlier record that passed the checks on code and name), the earlier record wins: the
  later one is left out, the output being what it would be without it, and the event is
  counted and logged as a duplicate, with the index, code and name of the later record.
\<close>

theorem cleanData_first_seen_wins:
  assumes earlier: "a \<in> set xs" "passes_checks a" "item_code a = Some c"
    and later: "passes_checks b" "item_code b = Some c" "item_name b = Inr n"
  shows "cleanData (xs @ b # ys) = cleanData (xs @ ys) \<and>
         length (duplicates (cleanData_run (xs @ b # ys))) =
           Suc (length (duplicates (cleanData_run (xs @ ys)))) \<and>
         (length xs, c, n) \<in> set (duplicates (cleanData_run (xs @ b # ys)))"
proof -
  define s where "s = cleanData_loop clean_init 0 xs"
  define s1 where "s1 = cleanItem s (length xs) b"
  have "c \<in> seen s"
    using earlier by (auto simp: s_def seen_loop)
  then have s1: "s1 = s\<lparr>duplicates := duplicates s @ [(length xs, c, n)]\<rparr>"
    unfolding s1_def using later by (intro cleanItem_duplicate)
  have with_b: "cleanData_run (xs @ b # ys) = cleanData_loop s1 (Suc (length xs)) ys"
    by (simp add: cleanData_run_def cleanData_loop_append s_def s1_def)
  have without_b: "cleanData_run (xs @ ys) = cleanData_loop s (length xs) ys"
    by (simp add: cleanData_run_def cleanData_loop_append s_def)
  have "agree 1 s1 s"
    by (simp add: s1 agree_def)
  then have ag: "agree 1 (cleanData_run (xs @ b # ys)) (cleanData_run (xs @ ys))"
    unfolding with_b without_b by (rule agree_loop)
  obtain l where "duplicates (cleanData_run (xs @ b # ys)) = duplicates s1 @ l"
    unfolding with_b using duplicates_loop by blast
  then have "(length xs, c, n) \<in> set (duplicates (cleanData_run (xs @ b # ys)))"
    by (simp add: s1)
  with ag show ?thesis
    by (simp add: agree_def cleanData_def allData_def)
qed

theorem cleanData_first_seen_wins_witness:
  "cleanData ([[(''code'', JStr ''042111000''), (''name'', JStr ''Kawit'')]] @
              [(''Code'', JNum 42111000), (''name'', JStr ''Kawit (again)'')] #
              [[(''code'', JStr ''042111001''), (''name'', JStr ''Binakayan'')]])
     = cleanData ([[(''code'', JStr ''042111000''), (''name'', JStr ''Kawit'')]] @
                  [[(''code'', JStr ''042111001''), (''name'', JStr ''Binakayan'')]]) \<and>
   (1, ''042111000'', ''Kawit (again)'') \<in> set (duplicates (cleanData_run
      ([[(''code'', JStr ''042111000''), (''name'', JStr ''Kawit'')]] @
       [(''Code'', JNum 42111000), (''name'', JStr ''Kawit (again)'')] #
       [[(''code'', JStr ''042111001''), (''name'', JStr ''Binakayan'')]])))"
proof -
  have a: "passes_checks [(''code'', JStr ''042111000''), (''name'', JStr ''Kawit'')]"
    "item_code [(''code'', JStr ''042111000''), (''name'', JStr ''Kawit'')] = Some ''042111000''"
    by code_simp+
  have b: "passes_checks [(''Code'', JNum 42111000), (''name'', JStr ''Kawit (again)'')]"
    "item_code [(''Code'', JNum 42111000), (''name'', JStr ''Kawit (again)'')] = Some ''042111000''"
    "item_name [(''Code'', JNum 42111000), (''name'', JStr ''Kawit (again)'')] = Inr ''Kawit (again)''"
    by code_simp+
  have m: "[(''code'', JStr ''042111000''), (''name'', JStr ''Kawit'')]
             \<in> set [[(''code'', JStr ''042111000''), (''name'', JStr ''Kawit'')]]"
    by simp
  from cleanData_first_seen_wins [OF m a b,
      of "[[(''code'', JStr ''042111001''), (''name'', JStr ''Binakayan'')]]"]
  show ?thesis by simp
qed

section \<open>The merge of fixMissingRecords\<close>

lemma codes_Nil [simp]: "codes [] = {}"
  by (simp add: codes_def List.map_filter_simps)

lemma codes_Cons:
  "codes (it # rest) = (case fix_code it of None \<Rightarrow> codes rest | Some c \<Rightarrow> insert c (codes rest))"
  by (simp add: codes_def List.map_filter_simps split: option.splits)

lemma in_codes: "c \<in> codes xs \<longleftrightarrow> (\<exists>x \<in> set xs. fix_code x = Some c)"
  by (induction xs) (auto simp: codes_Cons split: option.splits)

lemma dom_build_completeMap: "dom (build_completeMap m xs) = dom m \<union> codes xs"
  by (induction xs arbitrary: m) (auto simp: codes_Cons split: option.splits)

lemma find_missing_first_new:
  "snd (find_missing cm (sm, miss) xs) = miss @ first_new (dom cm \<union> dom sm) xs"
proof (induction xs arbitrary: sm miss)
  case Nil
  then show ?case by simp
next
  case (Cons x xs)
  show ?case
  proof (cases "fix_code x")
    case None
    then show ?thesis by (simp add: Cons.IH)
  next
    case (Some c)
    show ?thesis
    proof (cases "cm c = None \<and> sm c = None")
      case True
      then have out: "c \<notin> dom cm \<union> dom sm" by (simp add: domIff)
      have "snd (find_missing cm (sm, miss) (x # xs))
              = snd (find_missing cm (sm(c \<mapsto> x), miss @ [x]) xs)"
        using Some True by simp
      also have "\<dots> = (miss @ [x]) @ first_new (dom cm \<union> dom (sm(c \<mapsto> x))) xs"
        by (rule Cons.IH)
      also have "dom cm \<union> dom (sm(c \<mapsto> x)) = insert c (dom cm \<union> dom sm)"
        by simp
      finally show ?thesis using Some out by simp
    next
      case False
      then have "c \<in> dom cm \<union> dom sm" by (auto simp: domIff)
      moreover have "snd (find_missing cm (sm, miss) (x # xs))
              = snd (find_missing cm (sm, miss) xs)"
        using Some False by auto
      ultimately show ?thesis using Some by (simp add: Cons.IH)
    qed
  qed
qed

lemma first_new_sound:
  "y \<in> set (first_new S xs) \<Longrightarrow> y \<in> set xs \<and> (\<exists>c. fix_code y = Some c \<and> c \<notin> S)"
  by (induction xs arbitrary: S) (auto split: option.splits if_splits)

lemma first_new_distinct: "distinct (map fix_code (first_new S xs))"
proof (induction xs arbitrary: S)
  case Nil
  then show ?case by simp
next
  case (Cons x xs)
  show ?case
  proof (cases "fix_code x")
    case None
    then show ?thesis by (simp add: Cons.IH)
  next
    case (Some c)
    have "Some c \<notin> fix_code ` set (first_new (insert c S) xs)"
      using first_new_sound [of _ "insert c S" xs] by force
    then show ?thesis using Some by (simp add: Cons.IH)
  qed
qed

lemma add_missing_all:
  assumes "\<forall>y \<in> set ys. \<exists>c. fix_code y = Some c \<and> cm c = None"
    and "distinct (map fix_code ys)"
  shows "fst (add_missing (fd, cm) ys) = fd @ ys"
  using assms
proof (induction ys arbitrary: fd cm)
  case Nil
  then show ?case by simp
next
  case (Cons y ys)
  from Cons.prems(1) obtain c where c: "fix_code y = Some c" "cm c = None" by auto
  have "\<forall>z \<in> set ys. \<exists>d. fix_code z = Some d \<and> (cm(c \<mapsto> y)) d = None"
  proof
    fix z assume z: "z \<in> set ys"
    with Cons.prems(1) obtain d where d: "fix_code z = Some d" "cm d = None" by auto
    have "d \<noteq> c" using Cons.prems(2) z c(1) d(1) by force
    with d show "\<exists>d. fix_code z = Some d \<and> (cm(c \<mapsto> y)) d = None" by simp
  qed
  moreover have "distinct (map fix_code ys)" using Cons.prems(2) by simp
  ultimately have "fst (add_missing (fd @ [y], cm(c \<mapsto> y)) ys) = (fd @ [y]) @ ys"
    by (rule Cons.IH)
  then show ?case using c by simp
qed

lemma fixedData_eq:
  assumes "fixMissingRecords base supp = Inr out"
  shows "out = base @ first_new (codes base) supp"
proof -
  define cm where "cm = build_completeMap Map.empty base"
  have dom: "dom cm = codes base"
    by (simp add: cm_def dom_build_completeMap)
  have miss: "snd (find_missing cm (Map.empty, []) supp) = first_new (codes base) supp"
    using find_missing_first_new [of cm Map.empty "[]" supp] by (simp add: dom)
  have "\<forall>y \<in> set (first_new (codes base) supp). \<exists>c. fix_code y = Some c \<and> cm c = None"
    using first_new_sound [of _ "codes base" supp] dom by (metis domIff)
  then have "fst (add_missing (base, cm) (first_new (codes base) supp))
               = base @ first_new (codes base) supp"
    using first_new_distinct by (rule add_missing_all)
  with assms miss show ?thesis
    by (simp add: fixMissingRecords_def Let_def cm_def split: if_splits)
qed

lemma filter_first_new:
  "filter (\<lambda>x. fix_code x = Some c) (first_new S xs) =
     (if c \<in> S then []
      else case find (\<lambda>x. fix_code x = Some c) xs of None \<Rightarrow> [] | Some x \<Rightarrow> [x])"
proof (induction xs arbitrary: S)
  case Nil
  then show ?case by simp
next
  case (Cons x xs)
  show ?case
    by (cases "fix_code x") (auto simp: Cons.IH)
qed

lemma first_new_all:
  assumes "\<forall>x \<in> set xs. \<exists>c. fix_code x = Some c \<and> c \<notin> S"
    and "distinct (map fix_code xs)"
  shows "first_new S xs = xs"
  using assms
proof (induction xs arbitrary: S)
  case Nil
  then show ?case by simp
next
  case (Cons x xs)
  from Cons.prems(1) obtain c where c: "fix_code x = Some c" "c \<notin> S" by auto
  have "\<forall>z \<in> set xs. \<exists>d. fix_code z = Some d \<and> d \<notin> insert c S"
  proof
    fix z assume z: "z \<in> set xs"
    with Cons.prems(1) obtain d where d: "fix_code z = Some d" "d \<notin> S" by auto
    have "d \<noteq> c" using Cons.prems(2) z c(1) d(1) by force
    with d show "\<exists>d. fix_code z = Some d \<and> d \<notin> insert c S" by simp
  qed
  moreover have "distinct (map fix_code xs)" using Cons.prems(2) by simp
  ultimately have "first_new (insert c S) xs = xs" by (rule Cons.IH)
  then show ?case using c by simp
qed

text \<open>
  C6. The merge of \<open>fixMissingRecords\<close> prefers the baseline on overlapping codes and is
  commutative on disjoint code sets. When it returns \<open>out\<close> for a baseline \<open>base\<close> and a
  supplement \<open>supp\<close>: the baseline records come first, unchanged; for a code of the
  baseline the records of \<open>out\<close> with that code are those of the baseline (no supplement
  record is added for it); for any other code the one record of \<open>out\<close> with that code is
  the first record of the supplement that has it. For two sets of records with codes, no
  code twice and no code in common, merging either into the other returns all the records
  of both. It returns whenever no classification throws.
\<close>

theorem fixMissingRecords_merge:
  "(fixMissingRecords base supp = Inr out \<longrightarrow>
      take (length base) out = base \<and>
      (c \<in> codes base \<longrightarrow>
         filter (\<lambda>x. fix_code x = Some c) out = filter (\<lambda>x. fix_code x = Some c) base) \<and>
      (c \<notin> codes base \<longrightarrow>
         filter (\<lambda>x. fix_code x = Some c) out =
           (case find (\<lambda>x. fix_code x = Some c) supp of None \<Rightarrow> [] | Some x \<Rightarrow> [x]))) \<and>
   (fixMissingRecords a b = Inr ab \<and> fixMissingRecords b a = Inr ba \<and>
    codes a \<inter> codes b = {} \<and> (\<forall>x \<in> set (a @ b). fix_code x \<noteq> None) \<and>
    distinct (map fix_code a) \<and> distinct (map fix_code b) \<longrightarrow>
      ab = a @ b \<and> ba = b @ a \<and> set ab = set ba) \<and>
   ((\<forall>x \<in> set (base @ supp). \<not> isl (classifyEntity_fix x)) \<longrightarrow>
      (\<exists>res. fixMissingRecords base supp = Inr res))"
proof (intro conjI impI)
  assume r: "fixMissingRecords base supp = Inr out"
  then have out: "out = base @ first_new (codes base) supp"
    by (rule fixedData_eq)
  show "take (length base) out = base"
    by (simp add: out)
  {
    assume "c \<in> codes base"
    then show "filter (\<lambda>x. fix_code x = Some c) out = filter (\<lambda>x. fix_code x = Some c) base"
      by (simp add: out filter_first_new)
  }
  {
    assume "c \<notin> codes base"
    moreover from this have "filter (\<lambda>x. fix_code x = Some c) base = []"
      by (auto simp: in_codes filter_empty_conv)
    ultimately show "filter (\<lambda>x. fix_code x = Some c) out =
           (case find (\<lambda>x. fix_code x = Some c) supp of None \<Rightarrow> [] | Some x \<Rightarrow> [x])"
      by (simp add: out filter_first_new)
  }
next
  assume h: "fixMissingRecords a b = Inr ab \<and> fixMissingRecords b a = Inr ba \<and>
    codes a \<inter> codes b = {} \<and> (\<forall>x \<in> set (a @ b). fix_code x \<noteq> None) \<and>
    distinct (map fix_code a) \<and> distinct (map fix_code b)"
  have "\<forall>x \<in> set b. \<exists>c. fix_code x = Some c \<and> c \<notin> codes a"
  proof
    fix x assume x: "x \<in> set b"
    with h obtain c where c: "fix_code x = Some c" by auto
    with x have "c \<in> codes b" by (auto simp: in_codes)
    with h c show "\<exists>c. fix_code x = Some c \<and> c \<notin> codes a" by auto
  qed
  then have b: "first_new (codes a) b = b"
    using h by (intro first_new_all) auto
  have "\<forall>x \<in> set a. \<exists>c. fix_code x = Some c \<and> c \<notin> codes b"
  proof
    fix x assume x: "x \<in> set a"
    with h obtain c where c: "fix_code x = Some c" by auto
    with x have "c \<in> codes a" by (auto simp: in_codes)
    with h c show "\<exists>c. fix_code x = Some c \<and> c \<notin> codes b" by auto
  qed
  then have a: "first_new (codes b) a = a"
    using h by (intro first_new_all) auto
  from h have "ab = a @ first_new (codes a) b" "ba = b @ first_new (codes b) a"
    using fixedData_eq by blast+
  with a b show "ab = a @ b" "ba = b @ a" "set ab = set ba"
    by auto
next
  assume "\<forall>x \<in> set (base @ supp). \<not> isl (classifyEntity_fix x)"
  then have "\<not> list_ex (\<lambda>it. isl (classifyEntity_fix it)) (base @ supp)"
    by (simp add: list_ex_iff)
  then show "\<exists>res. fixMissingRecords base supp = Inr res"
    by (simp add: fixMissingRecords_def Let_def)
qed

text \<open>The scenario of C6: \<open>{A:baseline}\<close> merged with \<open>{A:supplement, B:supplement}\<close>.\<close>

theorem fixMissingRecords_merge_witness:
  "fixMissingRecords [A_baseline] [A_supplement, B_supplement] = Inr [A_baseline, B_supplement] \<and>
   filter (\<lambda>x. fix_code x = Some ''130000000'') [A_baseline, B_supplement] = [A_baseline] \<and>
   filter (\<lambda>x. fix_code x = Some ''042100000'') [A_baseline, B_supplement] = [B_supplement] \<and>
   fixMissingRecords [A_baseline] [B_supplement] = Inr [A_baseline, B_supplement] \<and>
   fixMissingRecords [B_supplement] [A_baseline] = Inr [B_supplement, A_baseline] \<and>
   set [A_baseline, B_supplement] = set [B_supplement, A_baseline]"
proof -
  have r: "fixMissingRecords [A_baseline] [A_supplement, B_supplement]
             = Inr [A_baseline, B_supplement]"
    by code_simp
  have cA: "''130000000'' \<in> codes [A_baseline]" and cB: "''042100000'' \<notin> codes [A_baseline]"
    by code_simp+
  have fA: "filter (\<lambda>x. fix_code x = Some ''130000000'') [A_baseline] = [A_baseline]"
    by code_simp
  have fB: "find (\<lambda>x. fix_code x = Some ''042100000'') [A_supplement, B_supplement]
              = Some B_supplement"
    by code_simp
  have ab: "fixMissingRecords [A_baseline] [B_supplement] = Inr [A_baseline, B_supplement]"
    and ba: "fixMissingRecords [B_supplement] [A_baseline] = Inr [B_supplement, A_baseline]"
    by code_simp+
  have dj: "codes [A_baseline] \<inter> codes [B_supplement] = {}"
    and nn: "\<forall>x \<in> set ([A_baseline] @ [B_supplement]). fix_code x \<noteq> None"
    by code_simp+
  have ok: "\<forall>x \<in> set ([A_baseline] @ [A_supplement, B_supplement]). \<not> isl (classifyEntity_fix x)"
    by code_simp
  from fixMissingRecords_merge [of "[A_baseline]" "[A_supplement, B_supplement]"
      "[A_baseline, B_supplement]" "''130000000''" "[A_baseline]" "[B_supplement]"
      "[A_baseline, B_supplement]" "[B_supplement, A_baseline]"] r cA fA ab ba dj nn ok
  have 1: "filter (\<lambda>x. fix_code x = Some ''130000000'') [A_baseline, B_supplement] = [A_baseline]"
    and 2: "set [A_baseline, B_supplement] = set [B_supplement, A_baseline]"
    by simp_all
  from fixMissingRecords_merge [of "[A_baseline]" "[A_supplement, B_supplement]"
      "[A_baseline, B_supplement]" "''042100000''" "[]" "[]" "[]" "[]"] r cB fB
  have 3: "filter (\<lambda>x. fix_code x = Some ''042100000'') [A_baseline, B_supplement] = [B_supplement]"
    by simp
  from r 1 2 3 ab ba show ?thesis by simp
qed

section \<open>Counts against the PSA standards\<close>

lemma startsWith_append: "startsWith (sub @ post) sub"
  by (induction sub) auto

lemma str_includes_append: "str_includes (pre @ sub @ post) sub"
proof (induction pre)
  case Nil
  show ?case
    using startsWith_append [of sub post] by (cases "sub @ post") (auto simp: startsWith_take)
next
  case (Cons c pre)
  then show ?case by simp
qed

text \<open>
  \<open>validateCount\<close> is a total function of the counts: a mismatch is a result, never an
  exception. When the actual count differs from the exact one, it reports an issue and the
  line it prints carries the difference \<open>actual - exact\<close>; with zero tolerance (\<open>min\<close> and
  \<open>max\<close> equal to \<open>exact\<close>), or whenever the count is outside \<open>min\<close>..\<open>max\<close>, the report is the
  out-of-range one. The closure \<open>compareCount\<close>, given two numbers, prints the difference as
  well.
\<close>

lemma validateCount_mismatch:
  "(actual \<noteq> exact std \<longrightarrow>
      mark (validateCount name actual std) \<noteq> Check_mark \<and>
      issue (validateCount name actual std) \<noteq> None \<and>
      str_includes (logged (validateCount name actual std))
        (''difference: '' @ signed (actual - exact std))) \<and>
   (actual \<noteq> exact std \<and> (std_min std = exact std \<and> std_max std = exact std \<or>
       actual < std_min std \<or> std_max std < actual) \<longrightarrow>
      mark (validateCount name actual std) = Cross_mark \<and>
      str_includes (logged (validateCount name actual std)) ''OUTSIDE expected range'') \<and>
   (actual \<noteq> expected \<longrightarrow>
      fst (compareCount name actual expected) \<noteq> Check_mark \<and>
      str_includes (snd (compareCount name actual expected))
        (''difference: '' @ signed (actual - expected)))"
proof (intro conjI impI)
  let ?d = "''difference: '' @ signed (actual - exact std)"
  assume ne: "actual \<noteq> exact std"
  show "mark (validateCount name actual std) \<noteq> Check_mark"
    using ne by (simp add: validateCount_def Let_def)
  show "issue (validateCount name actual std) \<noteq> None"
    using ne by (simp add: validateCount_def Let_def)
  have w: "str_includes
      ((name @ '': '' @ show_int actual @ '' (PSA official: '' @ show_int (exact std) @ '', '')
        @ ?d @ '')'') ?d"
    by (rule str_includes_append)
  have o: "str_includes
      ((name @ '': '' @ show_int actual @ '' (PSA official: '' @ show_int (exact std) @ '', '')
        @ ?d @ ('', OUTSIDE expected range '' @ show_int (std_min std) @ ''-'' @
                show_int (std_max std) @ '')'')) ?d"
    by (rule str_includes_append)
  show "str_includes (logged (validateCount name actual std)) ?d"
    using ne w o by (simp add: validateCount_def Let_def)
next
  assume h: "actual \<noteq> exact std \<and> (std_min std = exact std \<and> std_max std = exact std \<or>
       actual < std_min std \<or> std_max std < actual)"
  then have out: "(std_min std \<le> actual \<and> actual \<le> std_max std) = False" by auto
  from h have ne: "actual \<noteq> exact std" by simp
  show "mark (validateCount name actual std) = Cross_mark"
    using ne by (simp add: validateCount_def Let_def out)
  have "str_includes
      ((name @ '': '' @ show_int actual @ '' (PSA official: '' @ show_int (exact std) @
        '', difference: '' @ signed (actual - exact std) @ '', '')
        @ ''OUTSIDE expected range'' @ ('' '' @ show_int (std_min std) @ ''-'' @
                show_int (std_max std) @ '')'')) ''OUTSIDE expected range''"
    by (rule str_includes_append)
  then show "str_includes (logged (validateCount name actual std)) ''OUTSIDE expected range''"
    using ne by (simp add: validateCount_def Let_def out)
next
  let ?d = "''difference: '' @ signed (actual - expected)"
  assume ne: "actual \<noteq> expected"
  show "fst (compareCount name actual expected) \<noteq> Check_mark"
    using ne by (simp add: compareCount_def Let_def)
  have "str_includes
      ((name @ '': '' @ show_int actual @ '' (expected: '' @ show_int expected @ '', '')
        @ ?d @ '')'') ?d"
    by (rule str_includes_append)
  then show "str_includes (snd (compareCount name actual expected)) ?d"
    using ne by (simp add: compareCount_def Let_def)
qed

text \<open>490 barangays against the exact count 42011.\<close>

lemma validateCount_mismatch_example:
  "(490::int) \<noteq> exact PSA_STANDARDS_barangays \<and>
   std_min PSA_STANDARDS_barangays = exact PSA_STANDARDS_barangays \<and>
   std_max PSA_STANDARDS_barangays = exact PSA_STANDARDS_barangays \<and>
   validateCount ''Barangays'' 490 PSA_STANDARDS_barangays =
     \<lparr>mark = Cross_mark,
      logged = ''Barangays: 490 (PSA official: 42011, difference: -41521, OUTSIDE expected range 42011-42011)'',
      issue = Some ''Barangays count (490) outside expected range (42011-42011), PSA official: 42011''\<rparr> \<and>
   signed (490 - exact PSA_STANDARDS_barangays) = ''-41521'' \<and>
   mark (validateCount ''Barangays'' 490 PSA_STANDARDS_barangays) = Cross_mark \<and>
   str_includes (logged (validateCount ''Barangays'' 490 PSA_STANDARDS_barangays))
     (''difference: '' @ signed (490 - exact PSA_STANDARDS_barangays)) \<and>
   compareCount ''Barangays'' 490 42011 =
     (Cross_mark, ''Barangays: 490 (expected: 42011, difference: -41521)'')"
proof -
  have h: "(490::int) \<noteq> exact PSA_STANDARDS_barangays"
    "std_min PSA_STANDARDS_barangays = exact PSA_STANDARDS_barangays"
    "std_max PSA_STANDARDS_barangays = exact PSA_STANDARDS_barangays"
    by (simp_all add: PSA_STANDARDS_barangays_def)
  have v: "validateCount ''Barangays'' 490 PSA_STANDARDS_barangays =
     \<lparr>mark = Cross_mark,
      logged = ''Barangays: 490 (PSA official: 42011, difference: -41521, OUTSIDE expected range 42011-42011)'',
      issue = Some ''Barangays count (490) outside expected range (42011-42011), PSA official: 42011''\<rparr>"
    by code_simp
  have s: "signed (490 - exact PSA_STANDARDS_barangays) = ''-41521''"
    by code_simp
  have c: "compareCount ''Barangays'' 490 42011 =
     (Cross_mark, ''Barangays: 490 (expected: 42011, difference: -41521)'')"
    by code_simp
  have e: "(490::int) \<noteq> 42011" by simp
  from validateCount_mismatch [of 490 PSA_STANDARDS_barangays "''Barangays''" 42011] h e
  have "mark (validateCount ''Barangays'' 490 PSA_STANDARDS_barangays) = Cross_mark"
    and "str_includes (logged (validateCount ''Barangays'' 490 PSA_STANDARDS_barangays))
     (''difference: '' @ signed (490 - exact PSA_STANDARDS_barangays))"
    by blast+
  with h v s c show ?thesis by blast
qed

text \<open>
  C7. The claim: given an actual count that differs from the expected one, the validator
  emits the out-of-range result with the difference and returns normally. \<open>validateCount\<close>
  of validatePSGC.js does so (\<open>validateCount_mismatch\<close>), and \<open>compareCount\<close> does when it is
  given numbers, as in validatePSGC.js. In \<open>main\<close> of cleanPSGCData.js it is given none:
  \<open>cleaned\<close> is the flat array that \<open>cleanData\<close> returns, \<open>cleaned.regions\<close> is \<open>undefined\<close>, and
  reading its \<open>length\<close> throws before the first comparison is made, whatever the records.
\<close>

theorem main_compare_throws:
  "main_compare data = Inl TypeError"
  by (simp add: main_compare_def array_prop_def length_of_def)

text \<open>One barangay against the expected 42011: no line is printed.\<close>

lemma main_compare_one_barangay:
  "length (cleanData [[(''code'', JStr ''137401001''), (''name'', JStr ''Barangay 1'')]]) = 1 \<and>
   main_compare [[(''code'', JStr ''137401001''), (''name'', JStr ''Barangay 1'')]] = Inl TypeError \<and>
   compareCount ''Barangays'' 1 42011 =
     (Cross_mark, ''Barangays: 1 (expected: 42011, difference: -42010)'')"
  by code_simp

section \<open>The parent of a barangay\<close>

lemma insertBarangay_unparented:
  assumes "get data ''code'' = JStr code"
    and "\<not> truthy (get data ''city_code'')" and "\<not> truthy (get data ''municipality_code'')"
    and "sql_text (get data ''name'') = Some n"
    and "sql_text (get data ''province_code'') = Some p" and "p \<in> provinces d"
    and "sql_text (get data ''region_code'') = Some r" and "r \<in> regions d"
  shows "insertBarangay d data =
     Inr (d\<lparr>barangays := (barangays d)(code \<mapsto>
       \<lparr>b_name = n,
        b_city_code = (if take 6 code @ ''000'' \<in> cities d then Some (take 6 code @ ''000'') else None),
        b_municipality_code =
          (if take 6 code @ ''000'' \<notin> cities d \<and> take 6 code @ ''000'' \<in> municipalities d
           then Some (take 6 code @ ''000'') else None),
        b_province_code = p, b_region_code = r,
        b_urban_rural = sql_text (jor (get data ''urban_rural'') JNull)\<rparr>)\<rparr>)"
  using assms
  by (simp add: insertBarangay_def db_run_insert_barangay_def jor_def references_def Let_def)

text \<open>
  C5, as stated: when the prefix matches neither a city nor a municipality, a Municipality
  placeholder parent is synthesized. \<open>insertBarangay\<close> inserts no parent: with no city and
  no municipality in the database, the barangay \<open>042111001\<close> is stored with
  \<open>municipality_code\<close> \<open>NULL\<close> and the table of municipalities stays empty.
\<close>

theorem insertBarangay_placeholder_counterexample:
  "map_sum id (\<lambda>d. (municipalities d, cities d,
       map_option (\<lambda>row. (b_city_code row, b_municipality_code row)) (barangays d ''042111001'')))
     (insertBarangay (cavite_db {} {}) binakayan)
   = Inr ({}, {}, Some (None, None))"
  by (simp add: insertBarangay_def db_run_insert_barangay_def jor_def references_def Let_def
      cavite_db_def binakayan_def get_def)

text \<open>
  C5, amended: for a barangay record with neither \<open>city_code\<close> nor \<open>municipality_code\<close> set
  (and a name, a province and a region that the table accepts), \<open>insertBarangay\<close> computes
  the prefix, first 6 digits + "000", looks it up among the cities first and the
  municipalities second, and stores the barangay with the first that matches as its
  parent; if neither matches, it stores the barangay with both parent codes \<open>NULL\<close>. It
  inserts no placeholder: every table but \<open>barangays\<close> is left as it was.
\<close>

theorem insertBarangay_parentage:
  assumes "get data ''code'' = JStr code"
    and "\<not> truthy (get data ''city_code'')" and "\<not> truthy (get data ''municipality_code'')"
    and "sql_text (get data ''name'') = Some n"
    and "sql_text (get data ''province_code'') = Some p" and "p \<in> provinces d"
    and "sql_text (get data ''region_code'') = Some r" and "r \<in> regions d"
  shows "\<exists>d' row. insertBarangay d data = Inr d' \<and> barangays d' code = Some row \<and>
           b_city_code row =
             (if take 6 code @ ''000'' \<in> cities d then Some (take 6 code @ ''000'') else None) \<and>
           b_municipality_code row =
             (if take 6 code @ ''000'' \<in> cities d then None
              else if take 6 code @ ''000'' \<in> municipalities d then Some (take 6 code @ ''000'')
              else None) \<and>
           regions d' = regions d \<and> provinces d' = provinces d \<and> cities d' = cities d \<and>
           municipalities d' = municipalities d"
  using insertBarangay_unparented [OF assms] by simp

theorem insertBarangay_parentage_witness:
  "\<exists>d' row. insertBarangay (cavite_db {} {''042111000''}) binakayan = Inr d' \<and>
      barangays d' ''042111001'' = Some row \<and>
      b_city_code row = None \<and> b_municipality_code row = Some ''042111000'' \<and>
      municipalities d' = {''042111000''}"
proof -
  have h: "get binakayan ''code'' = JStr ''042111001''"
    "\<not> truthy (get binakayan ''city_code'')" "\<not> truthy (get binakayan ''municipality_code'')"
    "sql_text (get binakayan ''name'') = Some ''Binakayan''"
    "sql_text (get binakayan ''province_code'') = Some ''042100000''"
    "''042100000'' \<in> provinces (cavite_db {} {''042111000''})"
    "sql_text (get binakayan ''region_code'') = Some ''040000000''"
    "''040000000'' \<in> regions (cavite_db {} {''042111000''})"
    by (simp_all add: binakayan_def get_def cavite_db_def)
  from insertBarangay_parentage [OF h] obtain d' row where
    r: "insertBarangay (cavite_db {} {''042111000''}) binakayan = Inr d'"
      "barangays d' ''042111001'' = Some row"
      "b_city_code row =
         (if take 6 ''042111001'' @ ''000'' \<in> cities (cavite_db {} {''042111000''})
          then Some (take 6 ''042111001'' @ ''000'') else None)"
      "b_municipality_code row =
         (if take 6 ''042111001'' @ ''000'' \<in> cities (cavite_db {} {''042111000''}) then None
          else if take 6 ''042111001'' @ ''000'' \<in> municipalities (cavite_db {} {''042111000''})
          then Some (take 6 ''042111001'' @ ''000'') else None)"
      "municipalities d' = municipalities (cavite_db {} {''042111000''})"
    by auto
  from r(3-5) have "b_city_code row = None" "b_municipality_code row = Some ''042111000''"
    "municipalities d' = {''042111000''}"
    by (simp_all add: cavite_db_def)
  with r(1,2) show ?thesis
    by (intro exI [of _ d'] exI [of _ row]) simp
qed

text \<open>
  C10. Given a barangay record with neither \<open>city_code\<close> nor \<open>municipality_code\<close> set whose
  prefix code is neither a city nor a municipality of the database, \<open>insertBarangay\<close> still
  inserts the barangay (the rest of the record being one the table accepts), with both
  parent codes \<open>NULL\<close>, and adds no city and no municipality: a stored barangay need not
  have exactly one parent.
\<close>

theorem insertBarangay_no_parent:
  assumes "get data ''code'' = JStr code"
    and "\<not> truthy (get data ''city_code'')" and "\<not> truthy (get data ''municipality_code'')"
    and "sql_text (get data ''name'') = Some n"
    and "sql_text (get data ''province_code'') = Some p" and "p \<in> provinces d"
    and "sql_text (get data ''region_code'') = Some r" and "r \<in> regions d"
    and "take 6 code @ ''000'' \<notin> cities d" and "take 6 code @ ''000'' \<notin> municipalities d"
  shows "\<exists>d' row. insertBarangay d data = Inr d' \<and> barangays d' code = Some row \<and>
           b_name row = n \<and> b_city_code row = None \<and> b_municipality_code row = None \<and>
           cities d' = cities d \<and> municipalities d' = municipalities d"
  using insertBarangay_unparented [OF assms(1-8)] assms(9,10) by simp

theorem insertBarangay_no_parent_witness:
  "\<exists>d' row. insertBarangay (cavite_db {''042108000''} {''042103000''}) binakayan = Inr d' \<and>
      barangays d' ''042111001'' = Some row \<and> b_name row = ''Binakayan'' \<and>
      b_city_code row = None \<and> b_municipality_code row = None \<and>
      cities d' = {''042108000''} \<and> municipalities d' = {''042103000''}"
proof -
  have h: "get binakayan ''code'' = JStr ''042111001''"
    "\<not> truthy (get binakayan ''city_code'')" "\<not> truthy (get binakayan ''municipality_code'')"
    "sql_text (get binakayan ''name'') = Some ''Binakayan''"
    "sql_text (get binakayan ''province_code'') = Some ''042100000''"
    "''042100000'' \<in> provinces (cavite_db {''042108000''} {''042103000''})"
    "sql_text (get binakayan ''region_code'') = Some ''040000000''"
    "''040000000'' \<in> regions (cavite_db {''042108000''} {''042103000''})"
    "take 6 ''042111001'' @ ''000'' \<notin> cities (cavite_db {''042108000''} {''042103000''})"
    "take 6 ''042111001'' @ ''000'' \<notin> municipalities (cavite_db {''042108000''} {''042103000''})"
    by (simp_all add: binakayan_def get_def cavite_db_def)
  from insertBarangay_no_parent [OF h] obtain d' row where
    r: "insertBarangay (cavite_db {''042108000''} {''042103000''}) binakayan = Inr d'"
      "barangays d' ''042111001'' = Some row" "b_name row = ''Binakayan''"
      "b_city_code row = None" "b_municipality_code row = None"
      "cities d' = cities (cavite_db {''042108000''} {''042103000''})"
      "municipalities d' = municipalities (cavite_db {''042108000''} {''042103000''})"
    by auto
  from r(6,7) have "cities d' = {''042108000''}" "municipalities d' = {''042103000''}"
    by (simp_all add: cavite_db_def)
  with r(1-5) show ?thesis
    by (intro exI [of _ d'] exI [of _ row]) simp
qed

end
